theory Spec2Isabelle
  imports Main "HOL-Library.Sublist" "HOL-Library.Product_Lexorder"
begin

section \<open>The forum parser: field extractors and the earliest-date resolver\<close>

text \<open>
  A shallow embedding of \<^verbatim>\<open>parse_quora.py\<close>. The browser (the Selenium driver) is
  an external collaborator: every call the code makes on it is an input of the model,
  given as the value the call returns or the exception it raises. Python strings are
  lists of characters; the character tests (\<^verbatim>\<open>strip\<close>, \<^verbatim>\<open>lower\<close>,
  \<^verbatim>\<open>isdigit\<close>, the classes of the regular expressions) are the ASCII ones.
\<close>

subsection \<open>Exceptions and results\<close>

text \<open>
  The exceptions the code can meet: those of the driver (every Selenium exception is a
  \<^verbatim>\<open>WebDriverException\<close> and carries a message) and those of the Python
  built-ins the code calls (\<^verbatim>\<open>int\<close>, \<^verbatim>\<open>float\<close>, \<^verbatim>\<open>datetime\<close>,
  indexing).
\<close>

datatype exn =
    WebDriverException string
  | ValueError
  | OverflowError
  | KeyError
  | IndexError

text \<open>\<^verbatim>\<open>str(e)\<close>: Selenium prints \<^verbatim>\<open>Message: <msg>\<close> and a newline.\<close>

fun exn_str :: "exn \<Rightarrow> string" where
  "exn_str (WebDriverException m) = ''Message: '' @ m @ [CHR 0x0A]"
| "exn_str ValueError = ''ValueError''"
| "exn_str OverflowError = ''cannot convert float infinity to integer''"
| "exn_str KeyError = ''KeyError''"
| "exn_str IndexError = ''list index out of range''"

type_synonym 'a res = "exn + 'a"

text \<open>Sequencing of two steps, the second running only if the first did not raise.\<close>

definition bind_res :: "'a res \<Rightarrow> ('a \<Rightarrow> 'b res) \<Rightarrow> 'b res" where
  "bind_res r f = (case r of Inl e \<Rightarrow> Inl e | Inr v \<Rightarrow> f v)"

text \<open>\<^verbatim>\<open>try: ... except: ...\<close> around a computation.\<close>

definition try_except :: "'a res \<Rightarrow> (exn \<Rightarrow> 'a res) \<Rightarrow> 'a res" where
  "try_except r h = (case r of Inl e \<Rightarrow> h e | Inr v \<Rightarrow> Inr v)"

subsection \<open>Strings\<close>

definition is_digit :: "char \<Rightarrow> bool" where
  "is_digit c = (c \<in> set ''0123456789'')"

text \<open>The characters \<^verbatim>\<open>str.isspace\<close> accepts in ASCII: tab to carriage return,
  the four separators \<^verbatim>\<open>0x1c\<close> to \<^verbatim>\<open>0x1f\<close>, and the space.\<close>

definition is_space :: "char \<Rightarrow> bool" where
  "is_space c = (c \<in> set [CHR 0x09, CHR 0x0A, CHR 0x0B, CHR 0x0C, CHR 0x0D,
                            CHR 0x1C, CHR 0x1D, CHR 0x1E, CHR 0x1F, CHR 0x20])"

definition lower_char :: "char \<Rightarrow> char" where
  "lower_char c =
     (case map_of (zip ''ABCDEFGHIJKLMNOPQRSTUVWXYZ'' ''abcdefghijklmnopqrstuvwxyz'') c of
        None \<Rightarrow> c | Some l \<Rightarrow> l)"

definition lower :: "string \<Rightarrow> string" where
  "lower s = map lower_char s"

definition strip :: "string \<Rightarrow> string" where
  "strip s = rev (dropWhile is_space (rev (dropWhile is_space s)))"

text \<open>\<^verbatim>\<open>s.isdigit()\<close>: non-empty and digits only.\<close>

definition isdigit :: "string \<Rightarrow> bool" where
  "isdigit s = (s \<noteq> [] \<and> list_all is_digit s)"

text \<open>\<^verbatim>\<open>sub in s\<close>.\<close>

fun contains :: "string \<Rightarrow> string \<Rightarrow> bool" where
  "contains sub [] = (sub = [])"
| "contains sub (c # cs) = (prefix sub (c # cs) \<or> contains sub cs)"

declare contains.simps [simp del]

text \<open>\<^verbatim>\<open>s.replace(old, new)\<close> for a single character \<^verbatim>\<open>old\<close>.\<close>

definition replace_char :: "char \<Rightarrow> string \<Rightarrow> string \<Rightarrow> string" where
  "replace_char old new s = concat (map (\<lambda>c. if c = old then new else [c]) s)"

text \<open>\<^verbatim>\<open>s.find(sub)\<close>: the index of the first occurrence, if any.\<close>

fun find_sub :: "string \<Rightarrow> string \<Rightarrow> nat option" where
  "find_sub sub [] = (if sub = [] then Some 0 else None)"
| "find_sub sub (c # cs) =
     (if prefix sub (c # cs) then Some 0 else map_option Suc (find_sub sub cs))"

text \<open>\<^verbatim>\<open>s.split(sep)\<close>: the pieces between the occurrences of \<^verbatim>\<open>sep\<close>,
  found from the left without overlap. Python raises \<^verbatim>\<open>ValueError\<close> on an empty
  separator.\<close>

function split_on :: "string \<Rightarrow> string \<Rightarrow> string list" where
  "split_on sep s =
     (if sep = [] then [s]
      else case find_sub sep s of
             None \<Rightarrow> [s]
           | Some i \<Rightarrow> take i s # split_on sep (drop (i + length sep) s))"
  by pat_completeness auto
termination
proof (relation "measure (\<lambda>(sep, s). length s)")
  show "wf (measure (\<lambda>(sep, s). length s))" by simp
next
  fix sep s :: string and i
  assume "sep \<noteq> []" and f: "find_sub sep s = Some i"
  then have "s \<noteq> []" by (cases s) auto
  with \<open>sep \<noteq> []\<close> show "((sep, drop (i + length sep) s), (sep, s)) \<in> measure (\<lambda>(sep, s). length s)"
    by (cases sep) auto
qed

declare split_on.simps [simp del]

definition split :: "string \<Rightarrow> string \<Rightarrow> string list res" where
  "split sep s = (if sep = [] then Inl ValueError else Inr (split_on sep s))"

text \<open>\<^verbatim>\<open>xs[i]\<close> for \<^verbatim>\<open>i \<ge> 0\<close>.\<close>

definition index :: "'a list \<Rightarrow> nat \<Rightarrow> 'a res" where
  "index xs i = (if i < length xs then Inr (xs ! i) else Inl IndexError)"

text \<open>\<^verbatim>\<open>str(n)\<close> and \<^verbatim>\<open>int(s)\<close> on naturals in decimal.\<close>

definition digit_char :: "nat \<Rightarrow> char" where
  "digit_char d = ''0123456789'' ! (d mod 10)"

fun str_nat :: "nat \<Rightarrow> string" where
  "str_nat n = (if n < 10 then [digit_char n] else str_nat (n div 10) @ [digit_char (n mod 10)])"

declare str_nat.simps [simp del]

definition digit_val :: "char \<Rightarrow> nat" where
  "digit_val c = (case find_sub [c] ''0123456789'' of None \<Rightarrow> 0 | Some d \<Rightarrow> d)"

definition nat_of_digits :: "string \<Rightarrow> nat" where
  "nat_of_digits s = foldl (\<lambda>n c. 10 * n + digit_val c) 0 s"

definition int_of_str :: "string \<Rightarrow> nat res" where
  "int_of_str s = (if isdigit s then Inr (nat_of_digits s) else Inl ValueError)"

subsection \<open>Dates\<close>

record datetime =
  dt_year :: nat
  dt_month :: nat
  dt_day :: nat
  dt_hour :: nat
  dt_minute :: nat
  dt_second :: nat

definition is_leap :: "nat \<Rightarrow> bool" where
  "is_leap y = (y mod 4 = 0 \<and> (y mod 100 \<noteq> 0 \<or> y mod 400 = 0))"

definition days_in_month :: "nat \<Rightarrow> nat \<Rightarrow> nat" where
  "days_in_month y m =
     (if m = 2 then (if is_leap y then 29 else 28)
      else if m = 4 \<or> m = 6 \<or> m = 9 \<or> m = 11 then 30 else 31)"

text \<open>\<^verbatim>\<open>datetime.datetime(year, month, day, hour, minute, second)\<close> raises
  \<^verbatim>\<open>ValueError\<close> on a field out of range.\<close>

definition datetime_new :: "nat \<Rightarrow> nat \<Rightarrow> nat \<Rightarrow> nat \<Rightarrow> nat \<Rightarrow> nat \<Rightarrow> datetime res" where
  "datetime_new y mo d h mi s =
     (if 1 \<le> y \<and> y \<le> 9999 \<and> 1 \<le> mo \<and> mo \<le> 12 \<and> 1 \<le> d \<and> d \<le> days_in_month y mo
         \<and> h \<le> 23 \<and> mi \<le> 59 \<and> s \<le> 59
      then Inr \<lparr>dt_year = y, dt_month = mo, dt_day = d, dt_hour = h, dt_minute = mi, dt_second = s\<rparr>
      else Inl ValueError)"

text \<open>Two datetimes compare as their fields do, from the year down.\<close>

definition dt_key :: "datetime \<Rightarrow> nat \<times> nat \<times> nat \<times> nat \<times> nat \<times> nat" where
  "dt_key t = (dt_year t, dt_month t, dt_day t, dt_hour t, dt_minute t, dt_second t)"

definition month_names :: "string list" where
  "month_names = [''January'', ''February'', ''March'', ''April'', ''May'', ''June'', ''July'',
                  ''August'', ''September'', ''October'', ''November'', ''December'']"

text \<open>\<^verbatim>\<open>t.strftime("%B %d, %Y")\<close> of a valid date.\<close>

definition strftime_BdY :: "datetime \<Rightarrow> string" where
  "strftime_BdY t =
     month_names ! (dt_month t - 1) @ '' ''
       @ (if dt_day t < 10 then ''0'' else '''') @ str_nat (dt_day t) @ '', '' @ str_nat (dt_year t)"

text \<open>A candidate: the parsed time and the text to show for it.\<close>

type_synonym cand = "datetime \<times> string"

text \<open>\<^verbatim>\<open>xs.sort(key=lambda x: x[0])\<close>: Python's sort is stable, as is insertion
  sort.\<close>

definition sort_by_date :: "cand list \<Rightarrow> cand list" where
  "sort_by_date cs = sort_key (\<lambda>x. dt_key (fst x)) cs"

text \<open>The selection of the two scanning paths: sort, then the text of the first
  candidate.\<close>

definition select_earliest :: "cand list \<Rightarrow> string res" where
  "select_earliest cs = bind_res (index (sort_by_date cs) 0) (\<lambda>t. Inr (snd t))"

subsection \<open>Regular expressions\<close>

text \<open>
  The patterns of the program, matched as Python's \<^verbatim>\<open>re\<close> does: alternatives
  from the left, repetitions greedy, the first way to match wins. The matcher returns
  every way to match a prefix of the text, best first, each with the text left and the
  groups captured; the flag is \<^verbatim>\<open>re.IGNORECASE\<close>.
\<close>

datatype rx =
    Lit string
  | OneOf "char list"
  | Seq rx rx
  | Alt rx rx
  | Opt rx
  | Star rx
  | Grp nat rx

type_synonym caps = "(nat \<times> string) list"

fun rmatch :: "bool \<Rightarrow> rx \<Rightarrow> string \<Rightarrow> caps \<Rightarrow> (string \<times> caps) list" where
  "rmatch ci (Lit l) s c =
     (if (if ci then prefix (lower l) (lower (take (length l) s)) else prefix l s)
      then [(drop (length l) s, c)] else [])"
| "rmatch ci (OneOf cs) s c =
     (case s of
        [] \<Rightarrow> []
      | x # xs \<Rightarrow>
          if (if ci then lower_char x \<in> set (map lower_char cs) else x \<in> set cs)
          then [(xs, c)] else [])"
| "rmatch ci (Seq r1 r2) s c =
     concat (map (\<lambda>p. rmatch ci r2 (fst p) (snd p)) (rmatch ci r1 s c))"
| "rmatch ci (Alt r1 r2) s c = rmatch ci r1 s c @ rmatch ci r2 s c"
| "rmatch ci (Opt r) s c = rmatch ci r s c @ [(s, c)]"
| "rmatch ci (Star r) s c =
     concat (map (\<lambda>p. if length (fst p) < length s then rmatch ci (Star r) (fst p) (snd p) else [])
               (rmatch ci r s c))
     @ [(s, c)]"
| "rmatch ci (Grp n r) s c =
     map (\<lambda>p. (fst p, (n, take (length s - length (fst p)) s) # snd p)) (rmatch ci r s c)"

declare rmatch.simps(6) [simp del]

fun seqs :: "rx list \<Rightarrow> rx" where
  "seqs [] = Lit []"
| "seqs [r] = r"
| "seqs (r # rs) = Seq r (seqs rs)"

fun alts :: "rx list \<Rightarrow> rx" where
  "alts [] = OneOf []"
| "alts [r] = r"
| "alts (r # rs) = Alt r (alts rs)"

definition Plus :: "rx \<Rightarrow> rx" where
  "Plus r = Seq r (Star r)"

fun ngroups :: "rx \<Rightarrow> nat" where
  "ngroups (Lit l) = 0"
| "ngroups (OneOf cs) = 0"
| "ngroups (Seq r1 r2) = max (ngroups r1) (ngroups r2)"
| "ngroups (Alt r1 r2) = max (ngroups r1) (ngroups r2)"
| "ngroups (Opt r) = ngroups r"
| "ngroups (Star r) = ngroups r"
| "ngroups (Grp n r) = max n (ngroups r)"

text \<open>A match is the list of its groups, the whole match at index 0; a group that took
  no part in the match is the empty string, as in \<^verbatim>\<open>re.findall\<close> (where the code
  reads \<^verbatim>\<open>m.group(i)\<close> it only tests such a group for truth).\<close>

type_synonym groups = "string list"

definition grp :: "groups \<Rightarrow> nat \<Rightarrow> string" where
  "grp m i = (if i < length m then m ! i else [])"

definition groups_of :: "rx \<Rightarrow> string \<Rightarrow> string \<times> caps \<Rightarrow> groups" where
  "groups_of r s p =
     take (length s - length (fst p)) s
       # map (\<lambda>i. case map_of (snd p) i of None \<Rightarrow> [] | Some t \<Rightarrow> t) [1 ..< Suc (ngroups r)]"

text \<open>The match starting at the head of the text, with the text left after it.\<close>

definition match_here :: "bool \<Rightarrow> rx \<Rightarrow> string \<Rightarrow> (groups \<times> string) option" where
  "match_here ci r s =
     (case rmatch ci r s [] of [] \<Rightarrow> None | p # _ \<Rightarrow> Some (groups_of r s p, fst p))"

text \<open>\<^verbatim>\<open>re.search\<close>: the match at the leftmost position that has one.\<close>

fun re_search :: "bool \<Rightarrow> rx \<Rightarrow> string \<Rightarrow> groups option" where
  "re_search ci r [] = map_option fst (match_here ci r [])"
| "re_search ci r (x # xs) =
     (case match_here ci r (x # xs) of Some m \<Rightarrow> Some (fst m) | None \<Rightarrow> re_search ci r xs)"

declare re_search.simps [simp del]

text \<open>\<^verbatim>\<open>re.findall\<close>: the matches from the left without overlap, each the tuple of
  its groups 1 to n. (No pattern of the program matches the empty string; after such a
  match the scan moves one character on.)\<close>

function re_findall :: "bool \<Rightarrow> rx \<Rightarrow> string \<Rightarrow> string list list" where
  "re_findall ci r s =
     (case match_here ci r s of
        None \<Rightarrow> (case s of [] \<Rightarrow> [] | x # xs \<Rightarrow> re_findall ci r xs)
      | Some m \<Rightarrow>
          tl (fst m)
            # (if length (snd m) < length s then re_findall ci r (snd m)
               else case s of [] \<Rightarrow> [] | x # xs \<Rightarrow> re_findall ci r xs))"
  by pat_completeness auto
termination
  by (relation "measure (\<lambda>(ci, r, s). length s)") auto

declare re_findall.simps [simp del]

subsection \<open>The date patterns\<close>

definition month_abbrs :: "string list" where
  "month_abbrs = [''Jan'', ''Feb'', ''Mar'', ''Apr'', ''May'', ''Jun'', ''Jul'', ''Aug'', ''Sep'',
                  ''Oct'', ''Nov'', ''Dec'']"

definition month_rx :: rx where
  "month_rx = alts (map Lit (month_names @ month_abbrs))"

definition digit :: rx where
  "digit = OneOf ''0123456789''"

definition digit12 :: rx where
  "digit12 = Seq digit (Opt digit)"

definition digit2 :: rx where
  "digit2 = Seq digit digit"

definition digit4 :: rx where
  "digit4 = seqs [digit, digit, digit, digit]"

definition clock_rx :: rx where
  "clock_rx = seqs [Lit '' at '', Grp 4 digit12, Lit '':'', Grp 5 digit2,
                    Opt (Seq (Lit '':'') (Grp 6 digit2)), Lit '' '',
                    Grp 7 (Seq (OneOf ''APM'') (OneOf ''APM''))]"

text \<open>Pattern 1, \<^verbatim>\<open>(January|...|Dec) (\d{1,2}), (\d{4}) at (\d{1,2}):(\d{2})(?::(\d{2}))? ([APM]{2})\<close>.\<close>

definition time_date_rx :: rx where
  "time_date_rx = seqs [Grp 1 month_rx, Lit '' '', Grp 2 digit12, Lit '', '', Grp 3 digit4, clock_rx]"

text \<open>Pattern 2, \<^verbatim>\<open>(January|...|Dec) (\d{1,2}), (\d{4})\<close>.\<close>

definition date_rx :: rx where
  "date_rx = seqs [Grp 1 month_rx, Lit '' '', Grp 2 digit12, Lit '', '', Grp 3 digit4]"

text \<open>Pattern 3, \<^verbatim>\<open>(\d{1,2}) (January|...|Dec),? (\d{4})\<close>.\<close>

definition alt_date_rx :: rx where
  "alt_date_rx = seqs [Grp 1 digit12, Lit '' '', Grp 2 month_rx, Opt (Lit '',''), Lit '' '', Grp 3 digit4]"

text \<open>The pattern of the creation marker: pattern 2 with the time optional.\<close>

definition creation_rx :: rx where
  "creation_rx = seqs [Grp 1 month_rx, Lit '' '', Grp 2 digit12, Lit '', '', Grp 3 digit4, Opt clock_rx]"

definition month_map :: "(string \<times> nat) list" where
  "month_map =
     [(''January'', 1), (''February'', 2), (''March'', 3), (''April'', 4), (''May'', 5), (''June'', 6),
      (''July'', 7), (''August'', 8), (''September'', 9), (''October'', 10), (''November'', 11),
      (''December'', 12),
      (''Jan'', 1), (''Feb'', 2), (''Mar'', 3), (''Apr'', 4), (''May'', 5), (''Jun'', 6),
      (''Jul'', 7), (''Aug'', 8), (''Sep'', 9), (''Oct'', 10), (''Nov'', 11), (''Dec'', 12)]"

text \<open>\<^verbatim>\<open>month_map.get(month, 1)\<close>.\<close>

definition month_num :: "string \<Rightarrow> nat" where
  "month_num month = (case map_of month_map month of None \<Rightarrow> 1 | Some n \<Rightarrow> n)"

text \<open>The adjustment of the hour by \<^verbatim>\<open>AM\<close> and \<^verbatim>\<open>PM\<close>.\<close>

definition adjust_hour :: "string \<Rightarrow> nat \<Rightarrow> nat" where
  "adjust_hour ampm hour =
     (if ampm = ''PM'' \<and> hour < 12 then hour + 12
      else if ampm = ''AM'' \<and> hour = 12 then 0
      else hour)"

text \<open>\<^verbatim>\<open>try: ...; xs.append(c) except Exception: print(...)\<close>: what the step adds
  to the list.\<close>

definition appended :: "'a res \<Rightarrow> 'a list" where
  "appended r = (case r of Inl e \<Rightarrow> [] | Inr c \<Rightarrow> [c])"

subsection \<open>Scanning the spans of the log page\<close>

text \<open>Lines 144 to 181: a span that matches pattern 1. The text kept for the candidate
  is the span's.\<close>

definition span_timed_cand :: "groups \<Rightarrow> string \<Rightarrow> cand res" where
  "span_timed_cand m span_text =
     (let formatted_date = span_text in
      bind_res (int_of_str (grp m 2)) (\<lambda>day.
      bind_res (int_of_str (grp m 3)) (\<lambda>year.
      bind_res (int_of_str (grp m 4)) (\<lambda>hour.
      bind_res (int_of_str (grp m 5)) (\<lambda>minute.
      let hour = adjust_hour (grp m 7) hour in
      bind_res (if grp m 6 \<noteq> [] then int_of_str (grp m 6) else Inr 0) (\<lambda>second.
      bind_res (datetime_new year (month_num (grp m 1)) day hour minute second) (\<lambda>date_obj.
      Inr (date_obj, formatted_date))))))))"

text \<open>Lines 185 to 209: a span that matches pattern 2.\<close>

definition span_date_cand :: "groups \<Rightarrow> cand res" where
  "span_date_cand m =
     (let formatted_date = grp m 1 @ '' '' @ grp m 2 @ '', '' @ grp m 3 in
      bind_res (int_of_str (grp m 2)) (\<lambda>day.
      bind_res (int_of_str (grp m 3)) (\<lambda>year.
      bind_res (datetime_new year (month_num (grp m 1)) day 0 0 0) (\<lambda>date_obj.
      Inr (date_obj, formatted_date)))))"

text \<open>Lines 213 to 237: a span that matches pattern 3.\<close>

definition span_alt_cand :: "groups \<Rightarrow> cand res" where
  "span_alt_cand m =
     (let formatted_date = grp m 2 @ '' '' @ grp m 1 @ '', '' @ grp m 3 in
      bind_res (int_of_str (grp m 1)) (\<lambda>day.
      bind_res (int_of_str (grp m 3)) (\<lambda>year.
      bind_res (datetime_new year (month_num (grp m 2)) day 0 0 0) (\<lambda>date_obj.
      Inr (date_obj, formatted_date)))))"

text \<open>The candidates one span adds, by pattern: the body of the loop of line 138.\<close>

definition span_by_pattern1 :: "string \<Rightarrow> cand list" where
  "span_by_pattern1 span_text =
     (case re_search False time_date_rx span_text of
        None \<Rightarrow> []
      | Some m \<Rightarrow> appended (span_timed_cand m span_text))"

definition span_by_pattern2 :: "string \<Rightarrow> cand list" where
  "span_by_pattern2 span_text =
     (let time_date_match = re_search False time_date_rx span_text;
          date_match = re_search False date_rx span_text
      in case date_match of
           None \<Rightarrow> []
         | Some m \<Rightarrow> if time_date_match = None then appended (span_date_cand m) else [])"

definition span_by_pattern3 :: "string \<Rightarrow> cand list" where
  "span_by_pattern3 span_text =
     (let time_date_match = re_search False time_date_rx span_text;
          date_match = re_search False date_rx span_text;
          alt_date_match = re_search False alt_date_rx span_text
      in case alt_date_match of
           None \<Rightarrow> []
         | Some m \<Rightarrow>
             if time_date_match = None \<and> date_match = None then appended (span_alt_cand m) else [])"

definition scan_span :: "string \<Rightarrow> cand list" where
  "scan_span span_text =
     span_by_pattern1 span_text @ span_by_pattern2 span_text @ span_by_pattern3 span_text"

definition scan_spans :: "string list \<Rightarrow> cand list" where
  "scan_spans date_spans = concat (map scan_span date_spans)"

subsection \<open>Scanning the page source\<close>

text \<open>Lines 351 to 409: one tuple of \<^verbatim>\<open>re.findall\<close>. A tuple of pattern 1 has
  seven groups, one of patterns 2 and 3 has three; \<^verbatim>\<open>re.match(r'\d+', match[0])\<close>
  asks whether the first group starts with a digit.\<close>

definition source_cand :: "string list \<Rightarrow> cand res" where
  "source_cand match =
     (if length match \<ge> 7 then
        bind_res (int_of_str (grp match 1)) (\<lambda>day.
        bind_res (int_of_str (grp match 2)) (\<lambda>year.
        bind_res (int_of_str (grp match 3)) (\<lambda>hour.
        bind_res (int_of_str (grp match 4)) (\<lambda>minute.
        let month = grp match 0;
            hour = adjust_hour (grp match 6) hour in
        bind_res (if grp match 5 \<noteq> [] then int_of_str (grp match 5) else Inr 0) (\<lambda>second.
        let formatted_date =
              month @ '' '' @ str_nat day @ '', '' @ str_nat year @ '' at ''
                @ grp match 3 @ '':'' @ grp match 4
                @ (if grp match 5 \<noteq> [] then '':'' @ grp match 5 else [])
                @ '' '' @ grp match 6 in
        bind_res (datetime_new year (month_num month) day hour minute second) (\<lambda>date_obj.
        Inr (date_obj, formatted_date)))))))
      else if length match \<ge> 3 then
        (if (case grp match 0 of [] \<Rightarrow> False | c # cs \<Rightarrow> is_digit c) then
           bind_res (int_of_str (grp match 0)) (\<lambda>day.
           let month = grp match 1 in
           bind_res (int_of_str (grp match 2)) (\<lambda>year.
           let formatted_date = month @ '' '' @ str_nat day @ '', '' @ str_nat year in
           bind_res (datetime_new year (month_num month) day 0 0 0) (\<lambda>date_obj.
           Inr (date_obj, formatted_date))))
         else
           (let month = grp match 0 in
            bind_res (int_of_str (grp match 1)) (\<lambda>day.
            bind_res (int_of_str (grp match 2)) (\<lambda>year.
            let formatted_date = month @ '' '' @ str_nat day @ '', '' @ str_nat year in
            bind_res (datetime_new year (month_num month) day 0 0 0) (\<lambda>date_obj.
            Inr (date_obj, formatted_date))))))
      else Inl ValueError)"

definition date_patterns :: "rx list" where
  "date_patterns = [time_date_rx, date_rx, alt_date_rx]"

definition scan_source :: "string \<Rightarrow> cand list" where
  "scan_source page_source =
     concat (map (\<lambda>pattern. concat (map (\<lambda>match. appended (source_cand match))
                                         (re_findall False pattern page_source)))
               date_patterns)"

subsection \<open>The date resolver\<close>

text \<open>
  What the browser answers to the resolver, call by call: the URL read at line 65, the
  navigations (one answer per call in the source, given the URL asked for), the source
  and the URL of the log page (lines 78 and 85), and the two scripts. The script of
  line 130 returns the texts of the spans it found; the script of line 303 returns
  \<^verbatim>\<open>null\<close> or an object with the fields \<^verbatim>\<open>element\<close> and \<^verbatim>\<open>dateText\<close>.
\<close>

datatype nav = NavLog | NavBackEarliest | NavBackCreation | NavBackSource | NavBackFinal

record date_env =
  system_now :: datetime
  current_url_before :: "string res"
  driver_get :: "nav \<Rightarrow> string \<Rightarrow> unit res"
  log_page_source :: "string res"
  log_current_url :: "string res"
  date_spans_js :: "string list res"
  find_creation_js :: "(string \<times> string) option res"

definition login_indicators :: "string list" where
  "login_indicators =
     [''Something went wrong'', ''You need to login to view this page'', ''Log in to Quora'',
      ''Page not found'', [CHR ''T'', CHR ''h'', CHR ''i'', CHR ''s'', CHR '' '', CHR ''c'',
        CHR ''o'', CHR ''n'', CHR ''t'', CHR ''e'', CHR ''n'', CHR ''t'', CHR '' '', CHR ''i'',
        CHR ''s'', CHR ''n'', CHR 0x27, CHR ''t'', CHR '' '', CHR ''a'', CHR ''v'', CHR ''a'',
        CHR ''i'', CHR ''l'', CHR ''a'', CHR ''b'', CHR ''l'', CHR ''e'', CHR '' '', CHR ''r'',
        CHR ''i'', CHR ''g'', CHR ''h'', CHR ''t'', CHR '' '', CHR ''n'', CHR ''o'', CHR ''w''],
      ''Error'', ''The page you requested was not found'']"

text \<open>Lines 93 to 96. The entry of the list that is a truth value, not a text, is
  passed over.\<close>

definition restricted_access :: "string \<Rightarrow> bool" where
  "restricted_access page_source = list_ex (\<lambda>indicator. contains indicator page_source) login_indicators"

text \<open>Lines 67 to 71.\<close>

definition log_url_of :: "string \<Rightarrow> string" where
  "log_url_of answer_url =
     (if \<not> suffix ''/log'' answer_url \<and> \<not> contains ''/log/'' answer_url
      then answer_url @ ''/log'' else answer_url)"

text \<open>Lines 240 to 253 and 412 to 421: with candidates, the earliest one is returned
  after the way back to the original page.\<close>

definition return_earliest :: "date_env \<Rightarrow> nav \<Rightarrow> string \<Rightarrow> cand list \<Rightarrow> string res" where
  "return_earliest env site original_url cands =
     bind_res (select_earliest cands) (\<lambda>earliest_formatted_date.
     bind_res (driver_get env site original_url) (\<lambda>u.
     Inr earliest_formatted_date))"

text \<open>Lines 311 to 318: the text built from the match of the creation marker.\<close>

definition creation_formatted :: "groups \<Rightarrow> string" where
  "creation_formatted m =
     (if grp m 4 \<noteq> [] then
        grp m 1 @ '' '' @ grp m 2 @ '', '' @ grp m 3 @ '' at '' @ grp m 4 @ '':'' @ grp m 5
          @ (if grp m 6 \<noteq> [] then '':'' @ grp m 6 else [])
          @ '' '' @ grp m 7
      else grp m 1 @ '' '' @ grp m 2 @ '', '' @ grp m 3)"

text \<open>Lines 257 to 327, with their own \<^verbatim>\<open>try\<close>: the date beside a creation
  marker. \<^verbatim>\<open>None\<close> is the end of the block without a \<^verbatim>\<open>return\<close>.\<close>

definition creation_path :: "date_env \<Rightarrow> string \<Rightarrow> string option res" where
  "creation_path env original_url =
     try_except
       (bind_res (find_creation_js env) (\<lambda>creation_info.
          case creation_info of
            None \<Rightarrow> Inr None
          | Some info \<Rightarrow>
              (case re_search False creation_rx (snd info) of
                 None \<Rightarrow> Inr None
               | Some date_match \<Rightarrow>
                   bind_res (driver_get env NavBackCreation original_url) (\<lambda>u.
                   Inr (Some (creation_formatted date_match))))))
       (\<lambda>e. Inr None)"

text \<open>Lines 98 to 329: the log page. Whatever is raised inside is caught at line 328.\<close>

definition log_path :: "date_env \<Rightarrow> string \<Rightarrow> string option res" where
  "log_path env original_url =
     try_except
       (bind_res (date_spans_js env) (\<lambda>date_spans.
          if date_spans \<noteq> [] then
            (let all_found_dates = scan_spans date_spans in
             if all_found_dates \<noteq> []
             then bind_res (return_earliest env NavBackEarliest original_url all_found_dates)
                    (\<lambda>d. Inr (Some d))
             else creation_path env original_url)
          else Inr None))
       (\<lambda>e. Inr None)"

text \<open>Lines 332 to 427: the page source read at line 78.\<close>

definition source_path :: "date_env \<Rightarrow> string \<Rightarrow> string \<Rightarrow> string option res" where
  "source_path env original_url page_source =
     try_except
       (let all_date_objects = scan_source page_source in
        if all_date_objects \<noteq> []
        then bind_res (return_earliest env NavBackSource original_url all_date_objects)
               (\<lambda>d. Inr (Some d))
        else Inr None)
       (\<lambda>e. Inr None)"

text \<open>Lines 429 to 437.\<close>

definition approx_fallback :: "date_env \<Rightarrow> string \<Rightarrow> string res" where
  "approx_fallback env original_url =
     bind_res (driver_get env NavBackFinal original_url) (\<lambda>u.
     Inr (''Approx. '' @ strftime_BdY (system_now env)))"

definition extract_post_date :: "date_env \<Rightarrow> string \<Rightarrow> string res" where
  "extract_post_date env answer_url =
     bind_res (current_url_before env) (\<lambda>original_url.
     bind_res (driver_get env NavLog (log_url_of answer_url)) (\<lambda>u.
     bind_res (log_page_source env) (\<lambda>page_source.
     bind_res (log_current_url env) (\<lambda>current_url.
     bind_res (if \<not> restricted_access page_source then log_path env original_url else Inr None)
       (\<lambda>from_log.
     case from_log of
       Some d \<Rightarrow> Inr d
     | None \<Rightarrow>
         bind_res (source_path env original_url page_source) (\<lambda>from_source.
         case from_source of
           Some d \<Rightarrow> Inr d
         | None \<Rightarrow> approx_fallback env original_url))))))"

subsection \<open>Floating point and the normalisation of counts\<close>

text \<open>
  Python's \<^verbatim>\<open>float\<close> is the IEEE 754 binary64 format; the conversion from a decimal
  text and the multiplication round to the nearest value, ties to the even mantissa.
  Only values that are not negative occur: \<^verbatim>\<open>Finite m e\<close> is the value
  \<^verbatim>\<open>m * 2^e\<close>.
\<close>

datatype pyfloat = Finite nat int | Infinity

fun bitlen :: "nat \<Rightarrow> nat" where
  "bitlen n = (if n = 0 then 0 else Suc (bitlen (n div 2)))"

declare bitlen.simps [simp del]

text \<open>The quotient \<^verbatim>\<open>n / d\<close> rounded to the nearest natural, ties to even.\<close>

definition round_half_even :: "nat \<Rightarrow> nat \<Rightarrow> nat" where
  "round_half_even n d =
     (let q = n div d; r = n mod d
      in if 2 * r < d then q else if d < 2 * r then q + 1 else if even q then q else q + 1)"

text \<open>The binary64 value nearest to \<^verbatim>\<open>n / d\<close>, for \<^verbatim>\<open>d > 0\<close>: \<^verbatim>\<open>e\<close> is the
  exponent of the leading bit, the mantissa has 53 bits (fewer below \<^verbatim>\<open>2^-1022\<close>), and
  a result of \<^verbatim>\<open>2^1024\<close> or more is infinite.\<close>

definition round_double :: "nat \<Rightarrow> nat \<Rightarrow> pyfloat" where
  "round_double n d =
     (if n = 0 then Finite 0 0
      else
        let e0 = int (bitlen n) - int (bitlen d);
            e = (if d * 2 ^ nat e0 \<le> n * 2 ^ nat (- e0) then e0 else e0 - 1);
            p = max (e - 52) (- 1074);
            m = round_half_even (n * 2 ^ nat (- p)) (d * 2 ^ nat p)
        in if 2 ^ 2098 \<le> m * 2 ^ nat (p + 1074) then Infinity else Finite m p)"

text \<open>\<^verbatim>\<open>float(s)\<close> on the texts the code passes to it, which are made of digits,
  commas and at most one point: surrounding blanks are dropped, a text of digits with
  at most one point (and a digit on one side of it at least) is read in decimal, and
  any other text raises \<^verbatim>\<open>ValueError\<close>. (Signs, exponents, underscores and the
  names of the infinities, which \<^verbatim>\<open>float\<close> also reads, are not modelled.)\<close>

definition float_of_str :: "string \<Rightarrow> pyfloat res" where
  "float_of_str s =
     (let t = strip s; ip = takeWhile is_digit t; rest = dropWhile is_digit t;
          fp = (case rest of [] \<Rightarrow> [] | c # cs \<Rightarrow> cs)
      in if (rest = [] \<or> hd rest = CHR ''.'') \<and> list_all is_digit fp \<and> ip @ fp \<noteq> []
         then Inr (round_double (nat_of_digits (ip @ fp)) (10 ^ length fp))
         else Inl ValueError)"

text \<open>\<^verbatim>\<open>x * k\<close> for a positive integer \<^verbatim>\<open>k\<close> that is itself a binary64 value.\<close>

definition float_mul :: "pyfloat \<Rightarrow> nat \<Rightarrow> pyfloat" where
  "float_mul x k =
     (case x of
        Infinity \<Rightarrow> Infinity
      | Finite m p \<Rightarrow> round_double (m * k * 2 ^ nat p) (2 ^ nat (- p)))"

text \<open>\<^verbatim>\<open>int(x)\<close>: the integer part; \<^verbatim>\<open>OverflowError\<close> on an infinity.\<close>

definition int_of_float :: "pyfloat \<Rightarrow> nat res" where
  "int_of_float x =
     (case x of
        Infinity \<Rightarrow> Inl OverflowError
      | Finite m p \<Rightarrow> Inr (m * 2 ^ nat p div 2 ^ nat (- p)))"

text \<open>\<^verbatim>\<open>str(int(float(s) * k))\<close>.\<close>

definition scaled :: "string \<Rightarrow> nat \<Rightarrow> string res" where
  "scaled s k =
     bind_res (float_of_str s) (\<lambda>x.
     bind_res (int_of_float (float_mul x k)) (\<lambda>n.
     Inr (str_nat n)))"

text \<open>The block ``Convert K/M notation to full numbers'' (lines 455 to 463, and the
  same at six other places).\<close>

definition normalize_count :: "string \<Rightarrow> string res" where
  "normalize_count view_count =
     (if contains ''k'' (lower view_count)
      then scaled (replace_char CHR ''k'' [] (lower view_count)) 1000
      else if contains ''m'' (lower view_count)
      then scaled (replace_char CHR ''m'' [] (lower view_count)) 1000000
      else Inr (replace_char CHR '','' [] view_count))"

text \<open>The patterns of the counts: \<^verbatim>\<open>(\d+(?:,\d+)*(?:\.\d+)?(?:[KkMm])?)\s+views?\<close>,
  for the other fields with their word and, where the source has it, with
  \<^verbatim>\<open>(?:view\s+)?\<close> in front.\<close>

definition space :: rx where
  "space = OneOf [CHR 0x09, CHR 0x0A, CHR 0x0B, CHR 0x0C, CHR 0x0D,
                  CHR 0x1C, CHR 0x1D, CHR 0x1E, CHR 0x1F, CHR 0x20]"

definition number_rx :: rx where
  "number_rx = seqs [Plus digit, Star (Seq (Lit '','') (Plus digit)),
                     Opt (Seq (Lit ''.'') (Plus digit)), Opt (OneOf ''KkMm'')]"

definition count_rx :: "string \<Rightarrow> rx" where
  "count_rx word = seqs [Grp 1 number_rx, Plus space, Lit word, Opt (Lit ''s'')]"

definition view_count_rx :: "string \<Rightarrow> rx" where
  "view_count_rx word = Seq (Opt (Seq (Lit ''view'') (Plus space))) (count_rx word)"

text \<open>A text searched for a count: with a match, the first group is normalised and
  returned.\<close>

definition count_in_text :: "bool \<Rightarrow> rx \<Rightarrow> string \<Rightarrow> string option res" where
  "count_in_text ci pattern text =
     (case re_search ci pattern text of
        None \<Rightarrow> Inr None
      | Some m \<Rightarrow> bind_res (normalize_count (grp m 1)) (\<lambda>v. Inr (Some v)))"

subsection \<open>The page\<close>

text \<open>
  What the browser answers to a field extractor. An element is known by its
  \<^verbatim>\<open>text\<close>, which can raise (a stale element). The scripts of the extractors
  return a text or \<^verbatim>\<open>null\<close>. One extractor reads one page: asked twice the same,
  the page answers the same.
\<close>

type_synonym element = "string res"

datatype script =
    ViewsJs | UpvoteSpecificJs | UpvoteGeneralJs | CommentSpecificJs | CommentFinderJs | SharesJs

record page =
  find_element :: "string \<Rightarrow> element res"
  find_elements :: "string \<Rightarrow> element list res"
  execute_script :: "script \<Rightarrow> string option res"
  current_url :: "string res"

text \<open>A loop that returns from its body: the first step with a value ends it, a step
  that raises ends it too.\<close>

fun first_of :: "('a \<Rightarrow> 'b option res) \<Rightarrow> 'a list \<Rightarrow> 'b option res" where
  "first_of f [] = Inr None"
| "first_of f (x # xs) =
     bind_res (f x) (\<lambda>r. case r of Some v \<Rightarrow> Inr (Some v) | None \<Rightarrow> first_of f xs)"

text \<open>\<^verbatim>\<open>try: ... except: pass\<close> around a step that may return.\<close>

definition guarded :: "'b option res \<Rightarrow> 'b option res" where
  "guarded r = try_except r (\<lambda>e. Inr None)"

text \<open>The end of a function: the value a step returned, or else the rest.\<close>

definition or_else :: "'b option res \<Rightarrow> 'b res \<Rightarrow> 'b res" where
  "or_else r rest = bind_res r (\<lambda>v. case v of Some x \<Rightarrow> Inr x | None \<Rightarrow> rest)"

subsection \<open>The author\<close>

definition author_selectors :: "string list" where
  "author_selectors =
     [''//div[contains(@class, 'q-box')]//a[contains(@class, 'qu-bold')]/span'',
      ''//div[contains(@class, 'q-box')]//span[contains(@class, 'qu-bold')]'',
      ''//span[contains(@class, 'qu-bold--done')]'',
      ''//div[contains(@class, 'qu-borderBottom')]//span[contains(@class, 'qu-bold')]'']"

text \<open>Line 37: the test a name found by a selector has to pass.\<close>

definition plausible_name :: "string \<Rightarrow> bool" where
  "plausible_name name = (name \<noteq> [] \<and> length name > 1 \<and> \<not> contains ''answer'' (lower name))"

text \<open>Lines 33 to 41: one selector, within its \<^verbatim>\<open>try\<close>.\<close>

definition author_by_selector :: "page \<Rightarrow> string \<Rightarrow> string option res" where
  "author_by_selector p selector =
     guarded
       (bind_res (find_elements p selector) (\<lambda>author_elements.
        first_of (\<lambda>element.
                    bind_res element (\<lambda>text.
                    let name = strip text in
                    if plausible_name name then Inr (Some name) else Inr None))
          author_elements))"

text \<open>Lines 43 to 50: the name from the URL, or the default.\<close>

definition author_from_url :: "page \<Rightarrow> string res" where
  "author_from_url p =
     bind_res (current_url p) (\<lambda>url.
     if contains ''/answer/'' url then
       bind_res (split ''/answer/'' url) (\<lambda>parts.
       bind_res (index parts 1) (\<lambda>after.
       bind_res (split ''/'' after) (\<lambda>segments.
       bind_res (index segments 0) (\<lambda>segment.
       Inr (replace_char CHR ''-'' '' '' segment)))))
     else Inr ''Name not found'')"

definition extract_author_name :: "page \<Rightarrow> string res" where
  "extract_author_name p =
     try_except
       (or_else (first_of (author_by_selector p) author_selectors) (author_from_url p))
       (\<lambda>e. Inr ''Error extracting name'')"

subsection \<open>The views\<close>

definition view_xpath :: string where
  "view_xpath = ''//div[contains(@class, 'qu-color--gray_light')]//span[contains(@class, 'c1h7helg')][1]''"

definition view_selectors :: "string list" where
  "view_selectors =
     [''//span[contains(text(), 'views')]'',
      ''//div[contains(text(), 'views')]'',
      ''//span[contains(@class, 'c1h7helg')]'']"

text \<open>Lines 444 to 465: the element of the given path.\<close>

definition view_by_xpath :: "page \<Rightarrow> string option res" where
  "view_by_xpath p =
     guarded
       (bind_res (find_element p view_xpath) (\<lambda>view_element.
        bind_res view_element (\<lambda>text.
        let views_text = strip text in
        if contains ''views'' (lower views_text)
        then count_in_text False (count_rx ''view'') views_text
        else Inr None)))"

text \<open>Lines 475 to 495: one of the other selectors.\<close>

definition view_by_selector :: "page \<Rightarrow> string \<Rightarrow> string option res" where
  "view_by_selector p selector =
     guarded
       (bind_res (find_elements p selector) (\<lambda>elements.
        first_of (\<lambda>element.
                    bind_res element (\<lambda>t.
                    let text = lower (strip t) in
                    if contains ''views'' text
                    then count_in_text False (count_rx ''view'') text
                    else Inr None))
          elements))"

text \<open>Lines 497 to 519: the script, outside any inner \<^verbatim>\<open>try\<close>.\<close>

definition view_by_script :: "page \<Rightarrow> string option res" where
  "view_by_script p =
     bind_res (execute_script p ViewsJs) (\<lambda>views_text.
     case views_text of
       None \<Rightarrow> Inr None
     | Some text \<Rightarrow> if text \<noteq> [] then count_in_text False (count_rx ''view'') text else Inr None)"

definition extract_view_count :: "page \<Rightarrow> string res" where
  "extract_view_count p =
     try_except
       (or_else (view_by_xpath p)
       (or_else (first_of (view_by_selector p) view_selectors)
       (or_else (view_by_script p)
       (Inr ''0''))))
       (\<lambda>e. Inr ''0'')"

subsection \<open>The upvotes\<close>

definition upvote_xpath :: string where
  "upvote_xpath = ''/html/body/div[2]/div/div[2]/div/div[3]/div/div/div/div[1]/div[1]/div[6]/div/div/div/div[1]/div[1]/div/div/div/button/div[2]/div/span/span[4]/div/span[2]''"

definition upvote_button_xpath :: string where
  "upvote_button_xpath = ''//button[contains(@aria-label, 'Upvote')]''"

definition upvote_selectors :: "string list" where
  "upvote_selectors =
     [''//span[contains(text(), 'upvotes')]'',
      ''//div[contains(text(), 'upvotes')]'',
      ''//div[contains(@class, 'qu-color--gray_light')]//span[contains(@class, 'c1h7helg')][contains(text(), 'upvotes')]'']"

text \<open>Lines 531 to 541.\<close>

definition upvote_by_xpath :: "page \<Rightarrow> string option res" where
  "upvote_by_xpath p =
     guarded
       (bind_res (find_element p upvote_xpath) (\<lambda>upvote_element.
        bind_res upvote_element (\<lambda>text.
        let upvote_count = strip text in
        if upvote_count \<noteq> [] \<and> isdigit upvote_count \<and> length upvote_count < 10
        then Inr (Some upvote_count) else Inr None)))"

text \<open>Lines 544 to 585 and 588 to 619, and the like in the other extractors: a
  script whose answer is returned as it is, unless it is \<^verbatim>\<open>null\<close> or empty.\<close>

definition by_script :: "page \<Rightarrow> script \<Rightarrow> string option res" where
  "by_script p js =
     guarded
       (bind_res (execute_script p js) (\<lambda>count.
        case count of
          None \<Rightarrow> Inr None
        | Some c \<Rightarrow> if c \<noteq> [] then Inr (Some c) else Inr None))"

text \<open>Lines 622 to 632: the digits of the text of a button.\<close>

definition upvote_by_button :: "page \<Rightarrow> string option res" where
  "upvote_by_button p =
     guarded
       (bind_res (find_elements p upvote_button_xpath) (\<lambda>upvote_buttons.
        first_of (\<lambda>button.
                    bind_res button (\<lambda>text.
                    let button_text = strip text;
                        digits = filter is_digit button_text in
                    if digits \<noteq> [] \<and> length digits < 10 then Inr (Some digits) else Inr None))
          upvote_buttons))"

text \<open>Lines 641 to 662.\<close>

definition upvote_by_selector :: "page \<Rightarrow> string \<Rightarrow> string option res" where
  "upvote_by_selector p selector =
     guarded
       (bind_res (find_elements p selector) (\<lambda>elements.
        first_of (\<lambda>element.
                    bind_res element (\<lambda>t.
                    let text = lower (strip t) in
                    if contains ''upvote'' text
                    then count_in_text True (view_count_rx ''upvote'') text
                    else Inr None))
          elements))"

definition extract_upvote_count :: "page \<Rightarrow> string res" where
  "extract_upvote_count p =
     try_except
       (or_else (upvote_by_xpath p)
       (or_else (by_script p UpvoteSpecificJs)
       (or_else (by_script p UpvoteGeneralJs)
       (or_else (upvote_by_button p)
       (or_else (first_of (upvote_by_selector p) upvote_selectors)
       (Inr ''0''))))))
       (\<lambda>e. Inr ''0'')"

subsection \<open>The comments\<close>

definition comment_xpath :: string where
  "comment_xpath = ''/html/body/div[2]/div/div[2]/div/div[3]/div/div/div/div[1]/div[1]/div[6]/div/div/div/div[1]/div[2]/div/div/div/button/div/div[2]/span[2]''"

definition comment_span_xpath :: string where
  "comment_span_xpath = ''//button[contains(@aria-label, 'comment') or contains(@aria-label, 'Comment')]//div[contains(@class, 'q-text')]//span[contains(@class, 'q-text') and not(contains(@class, 'qu-visibility--hidden'))]''"

definition comment_button_xpath :: string where
  "comment_button_xpath = ''//button[contains(@aria-label, 'Comment') or contains(@aria-label, 'comment')]''"

definition comment_selectors :: "string list" where
  "comment_selectors =
     [''//span[contains(text(), 'comments')]'',
      ''//div[contains(text(), 'comments')]'']"

text \<open>Lines 675 to 684.\<close>

definition comment_by_xpath :: "page \<Rightarrow> string option res" where
  "comment_by_xpath p =
     guarded
       (bind_res (find_element p comment_xpath) (\<lambda>comment_element.
        bind_res comment_element (\<lambda>text.
        let comment_count = strip text in
        if comment_count \<noteq> [] \<and> isdigit comment_count
        then Inr (Some comment_count) else Inr None)))"

text \<open>Lines 713 to 722.\<close>

definition comment_by_span :: "page \<Rightarrow> string option res" where
  "comment_by_span p =
     guarded
       (bind_res (find_elements p comment_span_xpath) (\<lambda>comment_spans.
        first_of (\<lambda>span.
                    bind_res span (\<lambda>t.
                    let text = strip t in
                    if text \<noteq> [] \<and> isdigit text then Inr (Some text) else Inr None))
          comment_spans))"

text \<open>Lines 725 to 739.\<close>

definition comment_by_button :: "page \<Rightarrow> string option res" where
  "comment_by_button p =
     guarded
       (bind_res (find_elements p comment_button_xpath) (\<lambda>comment_buttons.
        first_of (\<lambda>button.
                    bind_res button (\<lambda>text.
                    let button_text = strip text in
                    if button_text \<noteq> [] \<and> isdigit button_text then Inr (Some button_text)
                    else
                      let digits = filter is_digit button_text in
                      if digits \<noteq> [] then Inr (Some digits) else Inr None))
          comment_buttons))"

text \<open>Lines 780 to 801.\<close>

definition comment_by_selector :: "page \<Rightarrow> string \<Rightarrow> string option res" where
  "comment_by_selector p selector =
     guarded
       (bind_res (find_elements p selector) (\<lambda>elements.
        first_of (\<lambda>element.
                    bind_res element (\<lambda>t.
                    let text = lower (strip t) in
                    if contains ''comment'' text
                    then count_in_text True (count_rx ''comment'') text
                    else Inr None))
          elements))"

definition extract_comment_count :: "page \<Rightarrow> string res" where
  "extract_comment_count p =
     try_except
       (or_else (comment_by_xpath p)
       (or_else (by_script p CommentSpecificJs)
       (or_else (comment_by_span p)
       (or_else (comment_by_button p)
       (or_else (by_script p CommentFinderJs)
       (or_else (first_of (comment_by_selector p) comment_selectors)
       (Inr ''0'')))))))
       (\<lambda>e. Inr ''0'')"

subsection \<open>The shares\<close>

definition share_selectors :: "string list" where
  "share_selectors =
     [''//span[contains(text(), 'shares')]'',
      ''//div[contains(text(), 'shares')]'',
      ''//div[contains(@class, 'qu-color--gray_light')]//span[contains(@class, 'c1h7helg')][contains(text(), 'shares')]'']"

definition share_button_xpath :: string where
  "share_button_xpath = ''//button[contains(@aria-label, 'Share')]''"

text \<open>Lines 820 to 841.\<close>

definition share_by_selector :: "page \<Rightarrow> string \<Rightarrow> string option res" where
  "share_by_selector p selector =
     guarded
       (bind_res (find_elements p selector) (\<lambda>elements.
        first_of (\<lambda>element.
                    bind_res element (\<lambda>t.
                    let text = lower (strip t) in
                    if contains ''shares'' text
                    then count_in_text True (view_count_rx ''share'') text
                    else Inr None))
          elements))"

text \<open>Lines 844 to 852.\<close>

definition share_by_button :: "page \<Rightarrow> string option res" where
  "share_by_button p =
     guarded
       (bind_res (find_elements p share_button_xpath) (\<lambda>share_buttons.
        first_of (\<lambda>button.
                    bind_res button (\<lambda>text.
                    let button_text = strip text in
                    if button_text \<noteq> [] \<and> isdigit button_text then Inr (Some button_text)
                    else Inr None))
          share_buttons))"

text \<open>Lines 855 to 876: the script, outside any inner \<^verbatim>\<open>try\<close>.\<close>

definition share_by_script :: "page \<Rightarrow> string option res" where
  "share_by_script p =
     bind_res (execute_script p SharesJs) (\<lambda>shares_text.
     case shares_text of
       None \<Rightarrow> Inr None
     | Some text \<Rightarrow> if text \<noteq> [] then count_in_text True (count_rx ''share'') text else Inr None)"

definition extract_share_count :: "page \<Rightarrow> string res" where
  "extract_share_count p =
     try_except
       (or_else (first_of (share_by_selector p) share_selectors)
       (or_else (share_by_button p)
       (or_else (share_by_script p)
       (Inr ''0''))))
       (\<lambda>e. Inr ''0'')"

subsection \<open>The record of an answer\<close>

text \<open>
  \<^verbatim>\<open>urlparse\<close> and \<^verbatim>\<open>urlunsplit\<close> belong to Python's library, not to the
  program: they are taken as given.
\<close>

record parsed_url =
  url_scheme :: string
  url_netloc :: string
  url_path :: string
  url_query :: string
  url_fragment :: string

record urllib =
  urlparse :: "string \<Rightarrow> parsed_url res"
  urlunsplit :: "parsed_url \<Rightarrow> string res"

text \<open>Lines 885 to 921.\<close>

definition extract_base_url :: "urllib \<Rightarrow> string \<Rightarrow> string res" where
  "extract_base_url lib url =
     try_except
       (bind_res (urlparse lib url) (\<lambda>parsed.
        let path = url_path parsed in
        if contains ''/answer/'' path then
          bind_res (split ''/answer/'' path) (\<lambda>parts.
          bind_res (index parts 0) (\<lambda>base_path.
          urlunsplit lib (parsed\<lparr>url_path := base_path\<rparr>)))
        else Inr url))
       (\<lambda>e. Inr url)"

record stats =
  views :: string
  upvotes :: string
  comments :: string
  shares :: string

text \<open>The dictionary returned. The keys \<^verbatim>\<open>is_deleted\<close> and \<^verbatim>\<open>error\<close> are not
  in every dictionary: \<^verbatim>\<open>None\<close> is the absence of the key.\<close>

record answer_record =
  answer_url :: string
  base_url :: string
  author :: string
  post_date :: string
  stats :: stats
  scraped_at :: string
  is_deleted :: "bool option"
  error :: "string option"

text \<open>
  What one call of \<^verbatim>\<open>scrape_quora_answer\<close> meets: the navigation to the answer,
  the wait for the body, the URL and the title printed at lines 937 and 938, the page
  as loaded (read for the deletion notice and for the author), the answers to the date
  resolver, the page after the resolver has come back (read for the counts), and the two
  readings of the clock.
\<close>

record scrape_env =
  lib :: urllib
  nav_answer :: "string \<Rightarrow> unit res"
  wait_body :: "unit res"
  printed_url :: "string res"
  printed_title :: "string res"
  loaded_page :: page
  date_answers :: date_env
  page_after :: page
  now_isoformat :: string
  now_isoformat_on_error :: string

definition deletion_indicators :: "string list" where
  "deletion_indicators =
     [''//div[contains(text(), 'Quora deleted this answer')]'',
      ''//div[contains(text(), 'deleted by Quora Moderation')]'',
      ''//div[contains(text(), 'Quora deleted this')]'']"

text \<open>Lines 944 to 959: the flag is set by the first indicator with an element; an
  exception ends the search with the flag as it is.\<close>

definition check_deleted :: "page \<Rightarrow> bool" where
  "check_deleted p =
     (case guarded (first_of (\<lambda>indicator.
                      bind_res (find_elements p indicator) (\<lambda>deletion_elements.
                      if deletion_elements \<noteq> [] then Inr (Some True) else Inr None))
                    deletion_indicators) of
        Inr (Some b) \<Rightarrow> b
      | _ \<Rightarrow> False)"

text \<open>Lines 961 to 977: the fields, by the deletion flag.\<close>

definition scrape_fields :: "scrape_env \<Rightarrow> string \<Rightarrow> bool \<Rightarrow> (string \<times> string \<times> stats) res" where
  "scrape_fields env url deleted =
     (if deleted then
        bind_res (extract_post_date (date_answers env) url) (\<lambda>post_date.
        Inr (''POST DELETED'', post_date,
             \<lparr>views = ''0'', upvotes = ''0'', comments = ''0'', shares = ''0''\<rparr>))
      else
        bind_res (extract_author_name (loaded_page env)) (\<lambda>author_name.
        bind_res (extract_post_date (date_answers env) url) (\<lambda>post_date.
        bind_res (extract_view_count (page_after env)) (\<lambda>view_count.
        bind_res (extract_upvote_count (page_after env)) (\<lambda>upvote_count.
        bind_res (extract_comment_count (page_after env)) (\<lambda>comment_count.
        bind_res (extract_share_count (page_after env)) (\<lambda>share_count.
        Inr (author_name, post_date,
             \<lparr>views = view_count, upvotes = upvote_count, comments = comment_count,
              shares = share_count\<rparr>))))))))"

text \<open>Lines 925 to 1017: the body of the \<^verbatim>\<open>try\<close>.\<close>

definition scrape_body :: "scrape_env \<Rightarrow> string \<Rightarrow> answer_record res" where
  "scrape_body env url =
     bind_res (nav_answer env url) (\<lambda>u.
     bind_res (wait_body env) (\<lambda>u.
     bind_res (printed_url env) (\<lambda>shown_url.
     bind_res (printed_title env) (\<lambda>shown_title.
     bind_res (extract_base_url (lib env) url) (\<lambda>base.
     let deleted = check_deleted (loaded_page env) in
     bind_res (scrape_fields env url deleted) (\<lambda>fields.
     Inr \<lparr>answer_url = url, base_url = base, author = fst fields,
          post_date = fst (snd fields), stats = snd (snd fields),
          scraped_at = now_isoformat env, is_deleted = Some deleted, error = None\<rparr>))))))"

text \<open>Lines 1019 to 1034: the handler.\<close>

definition scrape_failed :: "scrape_env \<Rightarrow> string \<Rightarrow> exn \<Rightarrow> answer_record res" where
  "scrape_failed env url e =
     bind_res (extract_base_url (lib env) url) (\<lambda>base.
     Inr \<lparr>answer_url = url, base_url = base, author = ''Error'', post_date = ''Error'',
          stats = \<lparr>views = ''0'', upvotes = ''0'', comments = ''0'', shares = ''0''\<rparr>,
          scraped_at = now_isoformat_on_error env, is_deleted = None,
          error = Some (exn_str e)\<rparr>)"

definition scrape_quora_answer :: "scrape_env \<Rightarrow> string \<Rightarrow> answer_record res" where
  "scrape_quora_answer env url = try_except (scrape_body env url) (scrape_failed env url)"

subsection \<open>The patterns of the specification\<close>







text \<open>The text of the candidate with the least time, the first of them in the order of
  the scan.\<close>

definition is_earliest :: "cand list \<Rightarrow> string \<Rightarrow> bool" where
  "is_earliest cands text =
     (\<exists>i<length cands.
        text = snd (cands ! i)
        \<and> (\<forall>j<length cands. dt_key (fst (cands ! i)) \<le> dt_key (fst (cands ! j)))
        \<and> (\<forall>j<i. dt_key (fst (cands ! j)) \<noteq> dt_key (fst (cands ! i))))"

text \<open>A step of a cascade that yields no value: it ends without one, or it raises.\<close>

definition yields_nothing :: "'a option res \<Rightarrow> bool" where
  "yields_nothing r = (case r of Inr (Some v) \<Rightarrow> False | _ \<Rightarrow> True)"

subsection \<open>Example inputs\<close>

definition today :: datetime where
  "today = \<lparr>dt_year = 2024, dt_month = 3, dt_day = 7, dt_hour = 10, dt_minute = 30, dt_second = 0\<rparr>"

definition example_url :: string where
  "example_url = ''https://www.quora.com/Q/answer/A-B''"

text \<open>A log page without a date on it, every call answered.\<close>

definition plain_date_env :: date_env where
  "plain_date_env =
     \<lparr>system_now = today,
      current_url_before = Inr example_url,
      driver_get = (\<lambda>site url. Inr ()),
      log_page_source = Inr ''<html></html>'',
      log_current_url = Inr (example_url @ ''/log''),
      date_spans_js = Inr [],
      find_creation_js = Inr None\<rparr>"

text \<open>A browser whose session is lost: every navigation raises.\<close>

definition lost_date_env :: date_env where
  "lost_date_env = plain_date_env\<lparr>driver_get := (\<lambda>site url. Inl (WebDriverException ''invalid session id''))\<rparr>"

text \<open>The script of the spans raises, and none of the guarded ways back is open.\<close>

definition failing_script_env :: date_env where
  "failing_script_env =
     plain_date_env\<lparr>date_spans_js := Inl (WebDriverException ''javascript error''),
                     driver_get := (\<lambda>site url. if site = NavLog \<or> site = NavBackFinal then Inr ()
                                               else Inl (WebDriverException ''timeout''))\<rparr>"

text \<open>A date with its time in the page source, in no span.\<close>

definition source_dated_env :: date_env where
  "source_dated_env = plain_date_env\<lparr>log_page_source := Inr ''<div>January 1, 2023 at 3:15 PM</div>''\<rparr>"

text \<open>A span of the log page with a date, its time and words before it.\<close>

definition span_dated_env :: date_env where
  "span_dated_env = plain_date_env\<lparr>date_spans_js := Inr [''Answered January 05, 2023 at 3:15 PM'']\<rparr>"

text \<open>Three spans of the log page, each a date.\<close>

definition three_spans_env :: date_env where
  "three_spans_env =
     plain_date_env\<lparr>date_spans_js := Inr [''January 5, 2023'', ''January 1, 2023 at 8:00 AM'',
                                          ''June 1, 2023'']\<rparr>"

text \<open>The same, and the way back after the selection among the spans is closed.\<close>

definition blocked_back_env :: date_env where
  "blocked_back_env =
     three_spans_env\<lparr>driver_get := (\<lambda>site url. if site = NavBackEarliest
                                                then Inl (WebDriverException ''timeout'')
                                                else Inr ())\<rparr>"

text \<open>Every call answered but the last navigation back.\<close>

definition no_final_back_env :: date_env where
  "no_final_back_env =
     plain_date_env\<lparr>driver_get := (\<lambda>site url. if site = NavBackFinal
                                               then Inl (WebDriverException ''timeout'')
                                               else Inr ())\<rparr>"

text \<open>A page on which no selector finds an element and no script a text.\<close>

definition bare_page :: "string \<Rightarrow> page" where
  "bare_page url =
     \<lparr>find_element = (\<lambda>xpath. Inl (WebDriverException ''no such element'')),
      find_elements = (\<lambda>xpath. Inr []),
      execute_script = (\<lambda>js. Inr None),
      current_url = Inr url\<rparr>"

text \<open>A library that splits the example URL and puts the parts together again.\<close>

definition example_lib :: urllib where
  "example_lib =
     \<lparr>urlparse = (\<lambda>url. Inr \<lparr>url_scheme = ''https'', url_netloc = ''www.quora.com'',
                                url_path = drop 21 url, url_query = '''', url_fragment = ''''\<rparr>),
      urlunsplit = (\<lambda>parts. Inr (url_scheme parts @ ''://'' @ url_netloc parts @ url_path parts))\<rparr>"

text \<open>A page with the notice of deletion.\<close>

definition deleted_page :: page where
  "deleted_page = (bare_page example_url)\<lparr>find_elements := (\<lambda>xpath.
       if xpath = ''//div[contains(text(), 'Quora deleted this answer')]''
       then Inr [Inr ''Quora deleted this answer.''] else Inr [])\<rparr>"

text \<open>The scrape of a deleted answer whose log page shows three dates.\<close>

definition deleted_scrape_env :: scrape_env where
  "deleted_scrape_env =
     \<lparr>lib = example_lib,
      nav_answer = (\<lambda>url. Inr ()),
      wait_body = Inr (),
      printed_url = Inr example_url,
      printed_title = Inr ''Q - Quora'',
      loaded_page = deleted_page,
      date_answers = three_spans_env,
      page_after = deleted_page,
      now_isoformat = ''2024-03-07T10:30:05.000001'',
      now_isoformat_on_error = ''2024-03-07T10:30:06.000001''\<rparr>"


text \<open>A browser whose session is lost: every call on the page raises.\<close>

definition dead_page :: page where
  "dead_page =
     \<lparr>find_element = (\<lambda>xpath. Inl (WebDriverException ''invalid session id'')),
      find_elements = (\<lambda>xpath. Inl (WebDriverException ''invalid session id'')),
      execute_script = (\<lambda>js. Inl (WebDriverException ''invalid session id'')),
      current_url = Inl (WebDriverException ''invalid session id'')\<rparr>"

text \<open>A page whose comment button shows a number of eleven digits, and one whose upvote
  button does.\<close>

definition long_comment_page :: page where
  "long_comment_page =
     (bare_page example_url)\<lparr>find_elements := (\<lambda>xpath.
        if xpath = comment_button_xpath then Inr [Inr ''12345678901''] else Inr [])\<rparr>"

definition long_upvote_page :: page where
  "long_upvote_page =
     (bare_page example_url)\<lparr>find_elements := (\<lambda>xpath.
        if xpath = upvote_button_xpath then Inr [Inr ''12345678901''] else Inr [])\<rparr>"


section \<open>Properties\<close>

subsection \<open>Helper lemmas on lists\<close>

lemma hd_filter_first:
  assumes "\<exists>x\<in>set xs. P x"
  shows "\<exists>i<length xs. hd (filter P xs) = xs ! i \<and> P (xs ! i) \<and> (\<forall>j<i. \<not> P (xs ! j))"
  using assms
proof (induction xs)
  case Nil
  then show ?case by simp
next
  case (Cons a xs)
  show ?case
  proof (cases "P a")
    case True
    then show ?thesis by (intro exI[of _ 0]) simp
  next
    case False
    with Cons.prems have "\<exists>x\<in>set xs. P x" by simp
    from Cons.IH[OF this] obtain i where i: "i < length xs" "hd (filter P xs) = xs ! i"
      "P (xs ! i)" "\<forall>j<i. \<not> P (xs ! j)" by blast
    show ?thesis
    proof (intro exI[of _ "Suc i"] conjI allI impI)
      fix j assume "j < Suc i"
      then show "\<not> P ((a # xs) ! j)" using False i(4) by (cases j) auto
    qed (use False i in auto)
  qed
qed

lemma sort_key_hd_least:
  assumes "xs \<noteq> []" and "y \<in> set xs"
  shows "f (hd (sort_key f xs)) \<le> f y"
proof -
  have s: "sorted (map f (sort_key f xs))" by (rule sorted_sort_key)
  have ne: "sort_key f xs \<noteq> []" using assms(1) by (metis length_sort length_0_conv)
  then obtain a as where a: "sort_key f xs = a # as" by (cases "sort_key f xs") auto
  have "y \<in> set (sort_key f xs)" using assms(2) by simp
  with s a show ?thesis by auto
qed

subsection \<open>Evaluation\<close>

lemma bind_res_Inr: "bind_res (Inr v) f = f v" by (simp add: bind_res_def)
lemma bind_res_Inl: "bind_res (Inl e) f = Inl e" by (simp add: bind_res_def)
lemma bind_res_weak_cong: "r = r' \<Longrightarrow> bind_res r f = bind_res r' f" by simp
lemma try_except_Inr: "try_except (Inr v) h = Inr v" by (simp add: try_except_def)
lemma try_except_Inl: "try_except (Inl e) h = h e" by (simp add: try_except_def)
lemma try_except_weak_cong: "r = r' \<Longrightarrow> try_except r h = try_except r' h" by simp
lemmas res_eval = bind_res_Inr bind_res_Inl try_except_Inr try_except_Inl


lemmas num_eval = str_nat.simps digit_char_def int_of_str_def isdigit_def is_digit_def nat_of_digits_def digit_val_def
  datetime_new_def days_in_month_def is_leap_def adjust_hour_def month_num_def month_map_def
lemmas env_eval = plain_date_env_def lost_date_env_def failing_script_env_def source_dated_env_def span_dated_env_def
  today_def example_url_def


lemmas scan_eval = appended_def source_cand_def span_timed_cand_def span_date_cand_def span_alt_cand_def grp_def
lemmas select_eval = return_earliest_def select_earliest_def sort_by_date_def index_def dt_key_def


subsection \<open>The earliest candidate\<close>

text \<open>The selection: sorted, the first candidate has the least time and stands first
  among those with that time in the list as scanned.\<close>

lemma select_earliest_minimal_first:
  assumes "cands \<noteq> []"
  shows "\<exists>i<length cands.
           select_earliest cands = Inr (snd (cands ! i))
           \<and> (\<forall>j<length cands. dt_key (fst (cands ! i)) \<le> dt_key (fst (cands ! j)))
           \<and> (\<forall>j<i. dt_key (fst (cands ! j)) \<noteq> dt_key (fst (cands ! i)))"
proof -
  define f where "f = (\<lambda>x::cand. dt_key (fst x))"
  define s where "s = sort_key f cands"
  have ne: "s \<noteq> []" using assms unfolding s_def by (metis length_sort length_0_conv)
  define x where "x = hd s"
  have xs: "x \<in> set cands" using ne unfolding x_def s_def by (metis hd_in_set set_sort)
  have sel: "select_earliest cands = Inr (snd x)"
    using ne by (simp add: select_earliest_def sort_by_date_def index_def bind_res_def
        f_def[symmetric] s_def[symmetric] x_def hd_conv_nth)
  have least: "\<And>y. y \<in> set cands \<Longrightarrow> f x \<le> f y"
    unfolding x_def s_def using assms by (rule sort_key_hd_least)
  have "filter (\<lambda>y. f y = f x) s = filter (\<lambda>y. f y = f x) cands"
    unfolding s_def by (rule sort_key_stable)
  moreover have "hd (filter (\<lambda>y. f y = f x) s) = x"
    using ne unfolding x_def by (cases s) auto
  ultimately have hx: "hd (filter (\<lambda>y. f y = f x) cands) = x" by simp
  from xs have "\<exists>y\<in>set cands. f y = f x" by blast
  from hd_filter_first[where P = "\<lambda>y. f y = f x", OF this] hx
  obtain i where i: "i < length cands" "x = cands ! i" "\<forall>j<i. f (cands ! j) \<noteq> f x"
    by auto
  show ?thesis
  proof (intro exI[of _ i] conjI allI impI)
    show "i < length cands" by (rule i(1))
    show "select_earliest cands = Inr (snd (cands ! i))" using sel i(2) by simp
  next
    fix j assume "j < length cands"
    then have "f x \<le> f (cands ! j)" by (intro least) simp
    then show "dt_key (fst (cands ! i)) \<le> dt_key (fst (cands ! j))" using i(2) by (simp add: f_def)
  next
    fix j assume "j < i"
    with i(3) have "f (cands ! j) \<noteq> f x" by blast
    then show "dt_key (fst (cands ! j)) \<noteq> dt_key (fst (cands ! i))" using i(2) by (simp add: f_def)
  qed
qed

subsection \<open>The resolver and the failures of the browser\<close>

lemma try_except_total: "(\<And>e. \<exists>v. h e = Inr v) \<Longrightarrow> \<exists>v. try_except r h = Inr v"
  by (cases r) (auto simp: try_except_def)

lemma log_path_total: "\<exists>r. log_path env u = Inr r"
  unfolding log_path_def by (rule try_except_total) simp

lemma source_path_total: "\<exists>r. source_path env u ps = Inr r"
  unfolding source_path_def by (rule try_except_total) simp

lemma plain_not_restricted: "restricted_access ''<html></html>'' = False"
  by code_simp

lemma plain_findall:
  "re_findall False time_date_rx ''<html></html>'' = []"
  "re_findall False date_rx ''<html></html>'' = []"
  "re_findall False alt_date_rx ''<html></html>'' = []"
  by code_simp+

lemma plain_scan_source: "scan_source ''<html></html>'' = []"
  by (simp add: scan_source_def date_patterns_def plain_findall)

lemma strftime_today: "strftime_BdY today = ''March 07, 2024''"
  by (simp add: strftime_BdY_def today_def month_names_def num_eval)

text \<open>When the two scanning paths end without a text, in terms of what the browser
  answered.\<close>

lemma creation_path_None_iff:
  "creation_path env u = Inr None \<longleftrightarrow>
     (case find_creation_js env of
        Inl e \<Rightarrow> True
      | Inr None \<Rightarrow> True
      | Inr (Some info) \<Rightarrow>
          re_search False creation_rx (snd info) = None
          \<or> (\<exists>e. driver_get env NavBackCreation u = Inl e))"
  by (auto simp: creation_path_def res_eval bind_res_def try_except_def
      split: sum.splits option.splits)

lemma log_path_None_iff:
  "log_path env u = Inr None \<longleftrightarrow>
     (case date_spans_js env of
        Inl e \<Rightarrow> True
      | Inr spans \<Rightarrow>
          spans = []
          \<or> (scan_spans spans \<noteq> [] \<and> (\<exists>e. driver_get env NavBackEarliest u = Inl e))
          \<or> (scan_spans spans = [] \<and> creation_path env u = Inr None))"
proof (cases "date_spans_js env")
  case (Inl e)
  then show ?thesis by (simp add: log_path_def res_eval)
next
  case (Inr spans)
  show ?thesis
  proof (cases "spans = []")
    case True
    with Inr show ?thesis by (simp add: log_path_def res_eval)
  next
    case ne: False
    show ?thesis
    proof (cases "scan_spans spans = []")
      case True
      obtain r where "creation_path env u = Inr r"
        unfolding creation_path_def using try_except_total[of "\<lambda>e. Inr None"] by fastforce
      with Inr ne True show ?thesis by (simp add: log_path_def res_eval)
    next
      case False
      from select_earliest_minimal_first[OF False] obtain t where t: "select_earliest (scan_spans spans) = Inr t"
        by blast
      show ?thesis
      proof (cases "driver_get env NavBackEarliest u")
        case (Inl e)
        with Inr ne False t show ?thesis
          by (simp add: log_path_def return_earliest_def res_eval)
      next
        case (Inr x)
        with \<open>date_spans_js env = Inr spans\<close> ne False t show ?thesis
          by (simp add: log_path_def return_earliest_def res_eval)
      qed
    qed
  qed
qed

lemma source_path_None_iff:
  "source_path env u ps = Inr None \<longleftrightarrow>
     scan_source ps = [] \<or> (\<exists>e. driver_get env NavBackSource u = Inl e)"
proof (cases "scan_source ps = []")
  case True
  then show ?thesis by (simp add: source_path_def res_eval)
next
  case False
  from select_earliest_minimal_first[OF False] obtain t where t: "select_earliest (scan_source ps) = Inr t"
    by blast
  show ?thesis
  proof (cases "driver_get env NavBackSource u")
    case (Inl e)
    with False t show ?thesis by (simp add: source_path_def return_earliest_def res_eval)
  next
    case (Inr x)
    with False t show ?thesis by (simp add: source_path_def return_earliest_def res_eval)
  qed
qed


text \<open>
  C4 (as the code has it). When the reading of the current URL, the navigation to the
  log page, the readings of its source and of its URL, and the last navigation back to
  the original page succeed, the resolver returns a text, whatever the scripts and the
  guarded navigations do; when neither the log page (its spans or its creation marker)
  nor the page source ends with a date returned, that text is the word ``Approx.'' and
  the date of the day. A failure of one of the unguarded calls leaves the resolver as
  the exception raised: of the reading of the current URL, of the navigation to the log
  page, of the reading of its source, of the reading of its URL, and, when no path has
  returned a date, of the last navigation back.
\<close>

theorem extract_post_date_returns:
  "(current_url_before env = Inr u0 \<and> driver_get env NavLog (log_url_of url) = Inr ()
      \<and> log_page_source env = Inr ps \<and> log_current_url env = Inr cu
      \<and> driver_get env NavBackFinal u0 = Inr ()
    \<longrightarrow> (\<exists>s. extract_post_date env url = Inr s)
        \<and> ((restricted_access ps \<or> log_path env u0 = Inr None) \<and> source_path env u0 ps = Inr None
            \<longrightarrow> extract_post_date env url = Inr (''Approx. '' @ strftime_BdY (system_now env))))
   \<and> (current_url_before env = Inl e \<longrightarrow> extract_post_date env url = Inl e)
   \<and> (current_url_before env = Inr u0 \<and> driver_get env NavLog (log_url_of url) = Inl e
        \<longrightarrow> extract_post_date env url = Inl e)
   \<and> (current_url_before env = Inr u0 \<and> driver_get env NavLog (log_url_of url) = Inr ()
        \<and> log_page_source env = Inl e
        \<longrightarrow> extract_post_date env url = Inl e)
   \<and> (current_url_before env = Inr u0 \<and> driver_get env NavLog (log_url_of url) = Inr ()
        \<and> log_page_source env = Inr ps \<and> log_current_url env = Inl e
        \<longrightarrow> extract_post_date env url = Inl e)
   \<and> (current_url_before env = Inr u0 \<and> driver_get env NavLog (log_url_of url) = Inr ()
        \<and> log_page_source env = Inr ps \<and> log_current_url env = Inr cu
        \<and> (restricted_access ps \<or> log_path env u0 = Inr None) \<and> source_path env u0 ps = Inr None
        \<and> driver_get env NavBackFinal u0 = Inl e
        \<longrightarrow> extract_post_date env url = Inl e)"
proof (intro conjI impI)
  assume a: "current_url_before env = Inr u0 \<and> driver_get env NavLog (log_url_of url) = Inr ()
      \<and> log_page_source env = Inr ps \<and> log_current_url env = Inr cu
      \<and> driver_get env NavBackFinal u0 = Inr ()"
  obtain l where l: "log_path env u0 = Inr l" using log_path_total by blast
  obtain r where r: "source_path env u0 ps = Inr r" using source_path_total by blast
  show "\<exists>s. extract_post_date env url = Inr s"
    using a l r
    by (cases l; cases r; cases "restricted_access ps")
       (simp_all add: extract_post_date_def approx_fallback_def res_eval)
next
  assume a: "current_url_before env = Inr u0 \<and> driver_get env NavLog (log_url_of url) = Inr ()
      \<and> log_page_source env = Inr ps \<and> log_current_url env = Inr cu
      \<and> driver_get env NavBackFinal u0 = Inr ()"
    and b: "(restricted_access ps \<or> log_path env u0 = Inr None) \<and> source_path env u0 ps = Inr None"
  from b have "(if \<not> restricted_access ps then log_path env u0 else Inr None) = Inr None"
    by auto
  then show "extract_post_date env url = Inr (''Approx. '' @ strftime_BdY (system_now env))"
    using a b by (simp add: extract_post_date_def approx_fallback_def res_eval)
next
  assume "current_url_before env = Inl e"
  then show "extract_post_date env url = Inl e"
    by (simp add: extract_post_date_def res_eval)
next
  assume "current_url_before env = Inr u0 \<and> driver_get env NavLog (log_url_of url) = Inl e"
  then show "extract_post_date env url = Inl e"
    by (simp add: extract_post_date_def res_eval)
next
  assume "current_url_before env = Inr u0 \<and> driver_get env NavLog (log_url_of url) = Inr ()
        \<and> log_page_source env = Inl e"
  then show "extract_post_date env url = Inl e"
    by (simp add: extract_post_date_def res_eval)
next
  assume "current_url_before env = Inr u0 \<and> driver_get env NavLog (log_url_of url) = Inr ()
        \<and> log_page_source env = Inr ps \<and> log_current_url env = Inl e"
  then show "extract_post_date env url = Inl e"
    by (simp add: extract_post_date_def res_eval)
next
  assume a: "current_url_before env = Inr u0 \<and> driver_get env NavLog (log_url_of url) = Inr ()
        \<and> log_page_source env = Inr ps \<and> log_current_url env = Inr cu
        \<and> (restricted_access ps \<or> log_path env u0 = Inr None) \<and> source_path env u0 ps = Inr None
        \<and> driver_get env NavBackFinal u0 = Inl e"
  then have "(if \<not> restricted_access ps then log_path env u0 else Inr None) = Inr None"
    by auto
  then show "extract_post_date env url = Inl e"
    using a by (simp add: extract_post_date_def approx_fallback_def res_eval)
qed


theorem extract_post_date_returns_witness:
  "extract_post_date failing_script_env example_url = Inr ''Approx. March 07, 2024''
   \<and> extract_post_date (plain_date_env\<lparr>current_url_before := Inl (WebDriverException ''no such window'')\<rparr>)
         example_url = Inl (WebDriverException ''no such window'')
   \<and> extract_post_date lost_date_env example_url = Inl (WebDriverException ''invalid session id'')
   \<and> extract_post_date (plain_date_env\<lparr>log_page_source := Inl (WebDriverException ''no such window'')\<rparr>)
         example_url = Inl (WebDriverException ''no such window'')
   \<and> extract_post_date (plain_date_env\<lparr>log_current_url := Inl (WebDriverException ''no such window'')\<rparr>)
         example_url = Inl (WebDriverException ''no such window'')
   \<and> extract_post_date no_final_back_env example_url = Inl (WebDriverException ''timeout'')"
proof -
  let ?e = "WebDriverException ''no such window''"
  have 1: "extract_post_date failing_script_env example_url = Inr ''Approx. March 07, 2024''"
  proof -
    have h: "current_url_before failing_script_env = Inr example_url
        \<and> driver_get failing_script_env NavLog (log_url_of example_url) = Inr ()
        \<and> log_page_source failing_script_env = Inr ''<html></html>''
        \<and> log_current_url failing_script_env = Inr (example_url @ ''/log'')
        \<and> driver_get failing_script_env NavBackFinal example_url = Inr ()"
      by (simp add: failing_script_env_def plain_date_env_def)
    have l: "log_path failing_script_env example_url = Inr None"
      by (simp add: log_path_def failing_script_env_def plain_date_env_def res_eval)
    have s: "source_path failing_script_env example_url ''<html></html>'' = Inr None"
      by (simp add: source_path_def plain_scan_source res_eval)
    have n: "system_now failing_script_env = today"
      by (simp add: failing_script_env_def plain_date_env_def)
    from extract_post_date_returns[of failing_script_env example_url example_url
        "''<html></html>''" "example_url @ ''/log''"] h l s
    have "extract_post_date failing_script_env example_url
            = Inr (''Approx. '' @ strftime_BdY (system_now failing_script_env))"
      by blast
    then show ?thesis by (simp add: n strftime_today)
  qed
  have 2: "extract_post_date (plain_date_env\<lparr>current_url_before := Inl ?e\<rparr>) example_url = Inl ?e"
    using extract_post_date_returns[of "plain_date_env\<lparr>current_url_before := Inl ?e\<rparr>" _ _ _ _ ?e]
    by simp
  have 3: "extract_post_date lost_date_env example_url = Inl (WebDriverException ''invalid session id'')"
  proof -
    have "current_url_before lost_date_env = Inr example_url
       \<and> driver_get lost_date_env NavLog (log_url_of example_url)
           = Inl (WebDriverException ''invalid session id'')"
      by (simp add: lost_date_env_def plain_date_env_def)
    with extract_post_date_returns[of lost_date_env example_url example_url _ _
        "WebDriverException ''invalid session id''"]
    show ?thesis by blast
  qed
  have 4: "extract_post_date (plain_date_env\<lparr>log_page_source := Inl ?e\<rparr>) example_url = Inl ?e"
  proof -
    have "current_url_before (plain_date_env\<lparr>log_page_source := Inl ?e\<rparr>) = Inr example_url
       \<and> driver_get (plain_date_env\<lparr>log_page_source := Inl ?e\<rparr>) NavLog (log_url_of example_url) = Inr ()
       \<and> log_page_source (plain_date_env\<lparr>log_page_source := Inl ?e\<rparr>) = Inl ?e"
      by (simp add: plain_date_env_def)
    with extract_post_date_returns[of "plain_date_env\<lparr>log_page_source := Inl ?e\<rparr>"
        example_url example_url _ _ ?e]
    show ?thesis by blast
  qed
  have 5: "extract_post_date (plain_date_env\<lparr>log_current_url := Inl ?e\<rparr>) example_url = Inl ?e"
  proof -
    have "current_url_before (plain_date_env\<lparr>log_current_url := Inl ?e\<rparr>) = Inr example_url
       \<and> driver_get (plain_date_env\<lparr>log_current_url := Inl ?e\<rparr>) NavLog (log_url_of example_url) = Inr ()
       \<and> log_page_source (plain_date_env\<lparr>log_current_url := Inl ?e\<rparr>) = Inr ''<html></html>''
       \<and> log_current_url (plain_date_env\<lparr>log_current_url := Inl ?e\<rparr>) = Inl ?e"
      by (simp add: plain_date_env_def)
    with extract_post_date_returns[of "plain_date_env\<lparr>log_current_url := Inl ?e\<rparr>"
        example_url example_url "''<html></html>''" _ ?e]
    show ?thesis by blast
  qed
  have 6: "extract_post_date no_final_back_env example_url = Inl (WebDriverException ''timeout'')"
  proof -
    have h: "current_url_before no_final_back_env = Inr example_url
        \<and> driver_get no_final_back_env NavLog (log_url_of example_url) = Inr ()
        \<and> log_page_source no_final_back_env = Inr ''<html></html>''
        \<and> log_current_url no_final_back_env = Inr (example_url @ ''/log'')
        \<and> driver_get no_final_back_env NavBackFinal example_url = Inl (WebDriverException ''timeout'')"
      by (simp add: no_final_back_env_def plain_date_env_def)
    have l: "log_path no_final_back_env example_url = Inr None"
      by (simp add: log_path_def no_final_back_env_def plain_date_env_def res_eval)
    have s: "source_path no_final_back_env example_url ''<html></html>'' = Inr None"
      by (simp add: source_path_def plain_scan_source res_eval)
    from extract_post_date_returns[of no_final_back_env example_url example_url
        "''<html></html>''" "example_url @ ''/log''" "WebDriverException ''timeout''"] h l s
    show ?thesis by blast
  qed
  from 1 2 3 4 5 6 show ?thesis by blast
qed

text \<open>
  C4 as stated fails: with a browser whose navigations raise, the resolver raises too
  and returns no text.
\<close>

theorem extract_post_date_raises:
  "\<not> (\<exists>s. extract_post_date lost_date_env example_url = Inr s)"
  by (simp add: extract_post_date_def env_eval res_eval)


subsection \<open>The precedence of the patterns\<close>

lemma scan_span_exclusive:
  "span_by_pattern1 t \<noteq> [] \<Longrightarrow> span_by_pattern2 t = [] \<and> span_by_pattern3 t = []"
  by (auto simp: span_by_pattern1_def span_by_pattern2_def span_by_pattern3_def Let_def
      split: option.splits)

lemma dated_not_restricted: "restricted_access ''<div>January 1, 2023 at 3:15 PM</div>'' = False"
  by code_simp

lemma dated_findall:
  "re_findall False time_date_rx ''<div>January 1, 2023 at 3:15 PM</div>''
     = [[''January'', ''1'', ''2023'', ''3'', ''15'', '''', ''PM'']]"
  "re_findall False date_rx ''<div>January 1, 2023 at 3:15 PM</div>'' = [[''January'', ''1'', ''2023'']]"
  "re_findall False alt_date_rx ''<div>January 1, 2023 at 3:15 PM</div>'' = []"
  by code_simp+

lemma dated_scan_source:
  "scan_source ''<div>January 1, 2023 at 3:15 PM</div>''
     = [(\<lparr>dt_year = 2023, dt_month = 1, dt_day = 1, dt_hour = 15, dt_minute = 15, dt_second = 0\<rparr>,
         ''January 1, 2023 at 3:15 PM''),
        (\<lparr>dt_year = 2023, dt_month = 1, dt_day = 1, dt_hour = 0, dt_minute = 0, dt_second = 0\<rparr>,
         ''January 1, 2023'')]"
  by (simp add: scan_source_def date_patterns_def dated_findall scan_eval res_eval num_eval
      cong: bind_res_weak_cong)

text \<open>
  C2, on a page source that holds one date with its time: the scan of the page source
  reports the text under pattern 1 and again under pattern 2, and the resolver returns
  the candidate of pattern 2, the date without its time.
\<close>

theorem source_path_reports_both_patterns:
  "re_findall False time_date_rx ''<div>January 1, 2023 at 3:15 PM</div>''
     = [[''January'', ''1'', ''2023'', ''3'', ''15'', '''', ''PM'']]
   \<and> re_findall False date_rx ''<div>January 1, 2023 at 3:15 PM</div>'' = [[''January'', ''1'', ''2023'']]
   \<and> map snd (scan_source ''<div>January 1, 2023 at 3:15 PM</div>'')
       = [''January 1, 2023 at 3:15 PM'', ''January 1, 2023'']
   \<and> extract_post_date source_dated_env example_url = Inr ''January 1, 2023''"
  by (simp add: dated_findall dated_scan_source dated_not_restricted extract_post_date_def
      log_path_def source_path_def select_eval env_eval res_eval
      cong: bind_res_weak_cong try_except_weak_cong)

subsection \<open>The text shown for a date with its time\<close>

lemma span_searches:
  "re_search False time_date_rx ''Answered January 05, 2023 at 3:15 PM''
     = Some [''January 05, 2023 at 3:15 PM'', ''January'', ''05'', ''2023'', ''3'', ''15'', '''', ''PM'']"
  "re_search False date_rx ''Answered January 05, 2023 at 3:15 PM''
     = Some [''January 05, 2023'', ''January'', ''05'', ''2023'']"
  "re_search False alt_date_rx ''Answered January 05, 2023 at 3:15 PM'' = None"
  by code_simp+

lemma span_scan:
  "scan_spans [''Answered January 05, 2023 at 3:15 PM'']
     = [(\<lparr>dt_year = 2023, dt_month = 1, dt_day = 5, dt_hour = 15, dt_minute = 15, dt_second = 0\<rparr>,
         ''Answered January 05, 2023 at 3:15 PM'')]"
  by (simp add: scan_spans_def scan_span_def span_by_pattern1_def span_by_pattern2_def
      span_by_pattern3_def span_searches scan_eval res_eval num_eval cong: bind_res_weak_cong)

text \<open>
  C7, on a span of the log page that holds words and a date with its time: the resolver
  returns the text of the span as it stands, not a text rebuilt from the parts of the
  date.
\<close>

theorem log_path_surfaces_span_text:
  "extract_post_date span_dated_env example_url = Inr ''Answered January 05, 2023 at 3:15 PM''"
  by (simp add: span_scan plain_not_restricted extract_post_date_def
      log_path_def select_eval env_eval res_eval
      cong: bind_res_weak_cong try_except_weak_cong)


subsection \<open>The normalisation of counts\<close>




























subsection \<open>The earliest candidate and the resolver\<close>

lemma select_earliest_is_earliest:
  assumes "cands \<noteq> []"
  shows "\<exists>t. select_earliest cands = Inr t \<and> is_earliest cands t"
  using select_earliest_minimal_first[OF assms] unfolding is_earliest_def by blast

lemma return_earliest_is_earliest:
  assumes "cands \<noteq> []" and "driver_get env site u = Inr ()"
  shows "\<exists>t. return_earliest env site u cands = Inr t \<and> is_earliest cands t"
  using select_earliest_is_earliest[OF assms(1)] assms(2)
  by (auto simp: return_earliest_def res_eval)

text \<open>
  C1 (as the code has it). With the unguarded calls of the resolver answered: when the
  spans of an accessible log page give candidates and the navigation back to the
  original page after the selection succeeds, the resolver returns the text of the
  candidate with the least time, the first of them in the order of the scan; when the
  log page gives nothing, the page source gives candidates and the navigation back
  after that selection succeeds, the same holds of the candidates of the page source.
\<close>

theorem resolver_returns_earliest:
  assumes "current_url_before env = Inr u0"
    and "driver_get env NavLog (log_url_of url) = Inr ()"
    and "log_page_source env = Inr ps"
    and "log_current_url env = Inr cu"
  shows "(\<not> restricted_access ps \<and> date_spans_js env = Inr spans \<and> scan_spans spans \<noteq> []
            \<and> driver_get env NavBackEarliest u0 = Inr ()
          \<longrightarrow> (\<exists>t. extract_post_date env url = Inr t \<and> is_earliest (scan_spans spans) t))
       \<and> ((restricted_access ps \<or> log_path env u0 = Inr None) \<and> scan_source ps \<noteq> []
            \<and> driver_get env NavBackSource u0 = Inr ()
          \<longrightarrow> (\<exists>t. extract_post_date env url = Inr t \<and> is_earliest (scan_source ps) t))"
proof (intro conjI impI)
  assume a: "\<not> restricted_access ps \<and> date_spans_js env = Inr spans \<and> scan_spans spans \<noteq> []
            \<and> driver_get env NavBackEarliest u0 = Inr ()"
  then have ne: "spans \<noteq> []" by (auto simp: scan_spans_def)
  from a return_earliest_is_earliest[of "scan_spans spans" env NavBackEarliest u0]
  obtain t where t: "return_earliest env NavBackEarliest u0 (scan_spans spans) = Inr t"
    "is_earliest (scan_spans spans) t" by blast
  have "log_path env u0 = Inr (Some t)"
    using a ne t(1) by (simp add: log_path_def res_eval Let_def)
  then have "extract_post_date env url = Inr t"
    using assms a by (simp add: extract_post_date_def res_eval)
  with t(2) show "\<exists>t. extract_post_date env url = Inr t \<and> is_earliest (scan_spans spans) t"
    by blast
next
  assume a: "(restricted_access ps \<or> log_path env u0 = Inr None) \<and> scan_source ps \<noteq> []
            \<and> driver_get env NavBackSource u0 = Inr ()"
  from a return_earliest_is_earliest[of "scan_source ps" env NavBackSource u0]
  obtain t where t: "return_earliest env NavBackSource u0 (scan_source ps) = Inr t"
    "is_earliest (scan_source ps) t" by blast
  have s: "source_path env u0 ps = Inr (Some t)"
    using a t(1) by (simp add: source_path_def res_eval Let_def)
  from a have "(if \<not> restricted_access ps then log_path env u0 else Inr None) = Inr None"
    by auto
  then have "extract_post_date env url = Inr t"
    using assms s by (simp add: extract_post_date_def res_eval)
  with t(2) show "\<exists>t. extract_post_date env url = Inr t \<and> is_earliest (scan_source ps) t"
    by blast
qed

lemma is_earliest_member: "is_earliest cands t \<Longrightarrow> t \<in> set (map snd cands)"
  unfolding is_earliest_def by (metis length_map nth_map nth_mem)

lemma three_spans_searches:
  "re_search False time_date_rx ''January 5, 2023'' = None"
  "re_search False date_rx ''January 5, 2023'' = Some [''January 5, 2023'', ''January'', ''5'', ''2023'']"
  "re_search False alt_date_rx ''January 5, 2023'' = None"
  "re_search False time_date_rx ''January 1, 2023 at 8:00 AM''
     = Some [''January 1, 2023 at 8:00 AM'', ''January'', ''1'', ''2023'', ''8'', ''00'', '''', ''AM'']"
  "re_search False date_rx ''January 1, 2023 at 8:00 AM''
     = Some [''January 1, 2023'', ''January'', ''1'', ''2023'']"
  "re_search False alt_date_rx ''January 1, 2023 at 8:00 AM'' = None"
  "re_search False time_date_rx ''June 1, 2023'' = None"
  "re_search False date_rx ''June 1, 2023'' = Some [''June 1, 2023'', ''June'', ''1'', ''2023'']"
  "re_search False alt_date_rx ''June 1, 2023'' = None"
  by code_simp+

lemma three_spans_scan:
  "scan_spans [''January 5, 2023'', ''January 1, 2023 at 8:00 AM'', ''June 1, 2023'']
     = [(\<lparr>dt_year = 2023, dt_month = 1, dt_day = 5, dt_hour = 0, dt_minute = 0, dt_second = 0\<rparr>,
         ''January 5, 2023''),
        (\<lparr>dt_year = 2023, dt_month = 1, dt_day = 1, dt_hour = 8, dt_minute = 0, dt_second = 0\<rparr>,
         ''January 1, 2023 at 8:00 AM''),
        (\<lparr>dt_year = 2023, dt_month = 6, dt_day = 1, dt_hour = 0, dt_minute = 0, dt_second = 0\<rparr>,
         ''June 1, 2023'')]"
  by (simp add: scan_spans_def scan_span_def span_by_pattern1_def span_by_pattern2_def
      span_by_pattern3_def three_spans_searches scan_eval res_eval num_eval
      cong: bind_res_weak_cong)

lemma three_spans_result:
  "extract_post_date three_spans_env example_url = Inr ''January 1, 2023 at 8:00 AM''"
  by (simp add: three_spans_scan plain_not_restricted extract_post_date_def log_path_def
      select_eval env_eval three_spans_env_def res_eval
      cong: bind_res_weak_cong try_except_weak_cong)

lemma source_dated_result:
  "extract_post_date source_dated_env example_url = Inr ''January 1, 2023''"
  by (simp add: dated_scan_source dated_not_restricted extract_post_date_def
      log_path_def source_path_def select_eval env_eval res_eval
      cong: bind_res_weak_cong try_except_weak_cong)

theorem resolver_returns_earliest_witness:
  "extract_post_date three_spans_env example_url = Inr ''January 1, 2023 at 8:00 AM''
   \<and> is_earliest (scan_spans [''January 5, 2023'', ''January 1, 2023 at 8:00 AM'', ''June 1, 2023''])
        ''January 1, 2023 at 8:00 AM''
   \<and> extract_post_date source_dated_env example_url = Inr ''January 1, 2023''
   \<and> is_earliest (scan_source ''<div>January 1, 2023 at 3:15 PM</div>'') ''January 1, 2023''"
proof -
  have h3: "current_url_before three_spans_env = Inr example_url"
    "driver_get three_spans_env NavLog (log_url_of example_url) = Inr ()"
    "log_page_source three_spans_env = Inr ''<html></html>''"
    "log_current_url three_spans_env = Inr (example_url @ ''/log'')"
    by (simp_all add: three_spans_env_def plain_date_env_def)
  have a3: "\<not> restricted_access ''<html></html>''
      \<and> date_spans_js three_spans_env
          = Inr [''January 5, 2023'', ''January 1, 2023 at 8:00 AM'', ''June 1, 2023'']
      \<and> scan_spans [''January 5, 2023'', ''January 1, 2023 at 8:00 AM'', ''June 1, 2023''] \<noteq> []
      \<and> driver_get three_spans_env NavBackEarliest example_url = Inr ()"
    by (simp add: three_spans_scan plain_not_restricted three_spans_env_def plain_date_env_def)
  from resolver_returns_earliest[OF h3] a3 three_spans_result
  have 1: "is_earliest (scan_spans [''January 5, 2023'', ''January 1, 2023 at 8:00 AM'', ''June 1, 2023''])
        ''January 1, 2023 at 8:00 AM''"
    by (metis sum.inject(2))
  have hs: "current_url_before source_dated_env = Inr example_url"
    "driver_get source_dated_env NavLog (log_url_of example_url) = Inr ()"
    "log_page_source source_dated_env = Inr ''<div>January 1, 2023 at 3:15 PM</div>''"
    "log_current_url source_dated_env = Inr (example_url @ ''/log'')"
    by (simp_all add: source_dated_env_def plain_date_env_def)
  have "log_path source_dated_env example_url = Inr None"
    by (simp add: log_path_def source_dated_env_def plain_date_env_def res_eval)
  then have as: "(restricted_access ''<div>January 1, 2023 at 3:15 PM</div>''
        \<or> log_path source_dated_env example_url = Inr None)
      \<and> scan_source ''<div>January 1, 2023 at 3:15 PM</div>'' \<noteq> []
      \<and> driver_get source_dated_env NavBackSource example_url = Inr ()"
    by (simp add: dated_scan_source source_dated_env_def plain_date_env_def)
  from resolver_returns_earliest[OF hs] as source_dated_result
  have 2: "is_earliest (scan_source ''<div>January 1, 2023 at 3:15 PM</div>'') ''January 1, 2023''"
    by (metis sum.inject(2))
  from 1 2 three_spans_result source_dated_result show ?thesis by blast
qed

text \<open>
  C1 as stated fails: with three candidates gathered from the spans and the navigation
  back after the selection raising, the exception is caught at line 328 and the
  resolver returns the approximation, the text of no candidate.
\<close>

theorem resolver_drops_earliest:
  "date_spans_js blocked_back_env
     = Inr [''January 5, 2023'', ''January 1, 2023 at 8:00 AM'', ''June 1, 2023'']
   \<and> map snd (scan_spans [''January 5, 2023'', ''January 1, 2023 at 8:00 AM'', ''June 1, 2023''])
       = [''January 5, 2023'', ''January 1, 2023 at 8:00 AM'', ''June 1, 2023'']
   \<and> extract_post_date blocked_back_env example_url = Inr ''Approx. March 07, 2024''
   \<and> \<not> is_earliest (scan_spans [''January 5, 2023'', ''January 1, 2023 at 8:00 AM'', ''June 1, 2023''])
          ''Approx. March 07, 2024''"
proof -
  have 1: "date_spans_js blocked_back_env
     = Inr [''January 5, 2023'', ''January 1, 2023 at 8:00 AM'', ''June 1, 2023'']"
    by (simp add: blocked_back_env_def three_spans_env_def plain_date_env_def)
  have 2: "map snd (scan_spans [''January 5, 2023'', ''January 1, 2023 at 8:00 AM'', ''June 1, 2023''])
       = [''January 5, 2023'', ''January 1, 2023 at 8:00 AM'', ''June 1, 2023'']"
    by (simp add: three_spans_scan)
  have 3: "extract_post_date blocked_back_env example_url = Inr ''Approx. March 07, 2024''"
    by (simp add: three_spans_scan plain_not_restricted plain_scan_source strftime_today
        extract_post_date_def log_path_def source_path_def approx_fallback_def
        select_eval plain_date_env_def three_spans_env_def blocked_back_env_def res_eval
        cong: bind_res_weak_cong try_except_weak_cong)
  have 4: "\<not> is_earliest (scan_spans [''January 5, 2023'', ''January 1, 2023 at 8:00 AM'', ''June 1, 2023''])
          ''Approx. March 07, 2024''"
  proof
    assume "is_earliest (scan_spans [''January 5, 2023'', ''January 1, 2023 at 8:00 AM'', ''June 1, 2023''])
          ''Approx. March 07, 2024''"
    from is_earliest_member[OF this] show False unfolding 2 by simp
  qed
  from 1 2 3 4 show ?thesis by blast
qed

subsection \<open>The author from the URL\<close>


















subsection \<open>The record of a deleted answer\<close>

lemma extract_base_url_total: "\<exists>b. extract_base_url l url = Inr b"
  unfolding extract_base_url_def by (rule try_except_total) simp


text \<open>
  C6. A record returned with \<^verbatim>\<open>is_deleted\<close> true has its four counts at
  \<^verbatim>\<open>"0"\<close>, the author \<^verbatim>\<open>"POST DELETED"\<close>, and as its date what the date
  resolver returned on this call.
\<close>

theorem deleted_record:
  assumes "scrape_quora_answer env url = Inr r" and "is_deleted r = Some True"
  shows "stats r = \<lparr>views = ''0'', upvotes = ''0'', comments = ''0'', shares = ''0''\<rparr>
         \<and> author r = ''POST DELETED''
         \<and> extract_post_date (date_answers env) url = Inr (post_date r)"
proof (cases "scrape_body env url")
  case (Inl e)
  obtain b where "extract_base_url (lib env) url = Inr b" using extract_base_url_total by blast
  with Inl assms(1) have "is_deleted r = None"
    by (auto simp: scrape_quora_answer_def scrape_failed_def res_eval)
  with assms(2) show ?thesis by simp
next
  case (Inr r')
  with assms(1) have r: "scrape_body env url = Inr r"
    by (simp add: scrape_quora_answer_def res_eval)
  then obtain base fields where
    f: "scrape_fields env url (check_deleted (loaded_page env)) = Inr fields"
    and rr: "r = \<lparr>answer_url = url, base_url = base, author = fst fields,
          post_date = fst (snd fields), stats = snd (snd fields),
          scraped_at = now_isoformat env, is_deleted = Some (check_deleted (loaded_page env)),
          error = None\<rparr>"
    by (auto simp: scrape_body_def bind_res_def Let_def split: sum.splits)
  from rr assms(2) have d: "check_deleted (loaded_page env)" by simp
  from f d obtain pd where "extract_post_date (date_answers env) url = Inr pd"
    and "fields = (''POST DELETED'', pd,
             \<lparr>views = ''0'', upvotes = ''0'', comments = ''0'', shares = ''0''\<rparr>)"
    by (auto simp: scrape_fields_def bind_res_def split: sum.splits)
  with rr show ?thesis by simp
qed

lemma base_url_example: "extract_base_url example_lib example_url = Inr ''https://www.quora.com/Q''"
  by code_simp

lemma check_deleted_example: "check_deleted deleted_page"
  by (simp add: check_deleted_def deleted_page_def bare_page_def deletion_indicators_def
      guarded_def res_eval)

lemma deleted_scrape_result:
  "scrape_quora_answer deleted_scrape_env example_url
     = Inr \<lparr>answer_url = example_url, base_url = ''https://www.quora.com/Q'',
            author = ''POST DELETED'', post_date = ''January 1, 2023 at 8:00 AM'',
            stats = \<lparr>views = ''0'', upvotes = ''0'', comments = ''0'', shares = ''0''\<rparr>,
            scraped_at = ''2024-03-07T10:30:05.000001'', is_deleted = Some True, error = None\<rparr>"
  by (simp add: scrape_quora_answer_def scrape_body_def scrape_fields_def deleted_scrape_env_def
      base_url_example check_deleted_example three_spans_result res_eval)

theorem deleted_record_witness:
  "scrape_quora_answer deleted_scrape_env example_url
     = Inr \<lparr>answer_url = example_url, base_url = ''https://www.quora.com/Q'',
            author = ''POST DELETED'', post_date = ''January 1, 2023 at 8:00 AM'',
            stats = \<lparr>views = ''0'', upvotes = ''0'', comments = ''0'', shares = ''0''\<rparr>,
            scraped_at = ''2024-03-07T10:30:05.000001'', is_deleted = Some True, error = None\<rparr>
   \<and> extract_post_date (date_answers deleted_scrape_env) example_url
       = Inr ''January 1, 2023 at 8:00 AM''"
  using deleted_record[OF deleted_scrape_result] deleted_scrape_result by simp


subsection \<open>The record of a failure\<close>



lemma extractors_total:
  "\<exists>v. extract_author_name p = Inr v"
  "\<exists>v. extract_view_count p = Inr v"
  "\<exists>v. extract_upvote_count p = Inr v"
  "\<exists>v. extract_comment_count p = Inr v"
  "\<exists>v. extract_share_count p = Inr v"
  unfolding extract_author_name_def extract_view_count_def extract_upvote_count_def
    extract_comment_count_def extract_share_count_def
  by (rule try_except_total, simp)+








subsection \<open>The defaults of the extractors\<close>

lemma yields_nothing_cases: "yields_nothing r \<longleftrightarrow> r = Inr None \<or> (\<exists>e. r = Inl e)"
  by (cases r) (auto simp: yields_nothing_def split: option.splits)

lemma cascade_step:
  assumes "yields_nothing r" and "try_except rest (\<lambda>e. Inr d) = Inr d"
  shows "try_except (or_else r rest) (\<lambda>e. Inr d) = Inr d"
  using assms unfolding yields_nothing_cases by (auto simp: or_else_def res_eval)

lemma cascade_end: "try_except (Inr d) (\<lambda>e. Inr d) = Inr d"
  by (simp add: res_eval)

lemma views_default:
  assumes "yields_nothing (view_by_xpath p)"
    and "yields_nothing (first_of (view_by_selector p) view_selectors)"
    and "yields_nothing (view_by_script p)"
  shows "extract_view_count p = Inr ''0''"
  unfolding extract_view_count_def
  by (intro cascade_step cascade_end assms)

lemma upvotes_default:
  assumes "yields_nothing (upvote_by_xpath p)"
    and "yields_nothing (by_script p UpvoteSpecificJs)"
    and "yields_nothing (by_script p UpvoteGeneralJs)"
    and "yields_nothing (upvote_by_button p)"
    and "yields_nothing (first_of (upvote_by_selector p) upvote_selectors)"
  shows "extract_upvote_count p = Inr ''0''"
  unfolding extract_upvote_count_def
  by (intro cascade_step cascade_end assms)

lemma comments_default:
  assumes "yields_nothing (comment_by_xpath p)"
    and "yields_nothing (by_script p CommentSpecificJs)"
    and "yields_nothing (comment_by_span p)"
    and "yields_nothing (comment_by_button p)"
    and "yields_nothing (by_script p CommentFinderJs)"
    and "yields_nothing (first_of (comment_by_selector p) comment_selectors)"
  shows "extract_comment_count p = Inr ''0''"
  unfolding extract_comment_count_def
  by (intro cascade_step cascade_end assms)

lemma shares_default:
  assumes "yields_nothing (first_of (share_by_selector p) share_selectors)"
    and "yields_nothing (share_by_button p)"
    and "yields_nothing (share_by_script p)"
  shows "extract_share_count p = Inr ''0''"
  unfolding extract_share_count_def
  by (intro cascade_step cascade_end assms)

lemma first_of_total: "(\<And>x. \<exists>r. f x = Inr r) \<Longrightarrow> \<exists>r. first_of f xs = Inr r"
proof (induction xs)
  case Nil
  then show ?case by simp
next
  case (Cons x xs)
  from Cons.prems obtain r where r: "f x = Inr r" by blast
  from Cons.IH[OF Cons.prems] obtain r' where "first_of f xs = Inr r'" by blast
  with r show ?case by (cases r) (simp_all add: res_eval)
qed

lemma author_selectors_total: "\<exists>r. first_of (author_by_selector p) author_selectors = Inr r"
proof (rule first_of_total)
  fix x show "\<exists>r. author_by_selector p x = Inr r"
    unfolding author_by_selector_def guarded_def by (rule try_except_total) simp
qed

lemma author_default:
  assumes "yields_nothing (first_of (author_by_selector p) author_selectors)"
  shows "current_url p = Inr u \<and> \<not> contains ''/answer/'' u
           \<longrightarrow> extract_author_name p = Inr ''Name not found''"
    and "current_url p = Inl e \<longrightarrow> extract_author_name p = Inr ''Error extracting name''"
proof -
  from assms author_selectors_total[of p]
  have n: "first_of (author_by_selector p) author_selectors = Inr None"
    unfolding yields_nothing_cases by auto
  show "current_url p = Inr u \<and> \<not> contains ''/answer/'' u
           \<longrightarrow> extract_author_name p = Inr ''Name not found''"
    using n by (simp add: extract_author_name_def or_else_def author_from_url_def res_eval)
  show "current_url p = Inl e \<longrightarrow> extract_author_name p = Inr ''Error extracting name''"
    using n by (simp add: extract_author_name_def or_else_def author_from_url_def res_eval)
qed

text \<open>
  C3 (as the code has it). On every page each of the five extractors returns a text and
  raises nothing. A count extractor returns \<^verbatim>\<open>"0"\<close> when none of its steps yields a
  value. The author extractor, when no selector yields a name, returns
  \<^verbatim>\<open>"Name not found"\<close> if the current URL is read and holds no \<^verbatim>\<open>/answer/\<close>,
  and \<^verbatim>\<open>"Error extracting name"\<close> if the reading of the current URL raises.
\<close>

theorem extractors_return_defaults:
  "(\<exists>v. extract_author_name p = Inr v) \<and> (\<exists>v. extract_view_count p = Inr v)
   \<and> (\<exists>v. extract_upvote_count p = Inr v) \<and> (\<exists>v. extract_comment_count p = Inr v)
   \<and> (\<exists>v. extract_share_count p = Inr v)
   \<and> (yields_nothing (view_by_xpath p)
        \<and> yields_nothing (first_of (view_by_selector p) view_selectors)
        \<and> yields_nothing (view_by_script p)
      \<longrightarrow> extract_view_count p = Inr ''0'')
   \<and> (yields_nothing (upvote_by_xpath p) \<and> yields_nothing (by_script p UpvoteSpecificJs)
        \<and> yields_nothing (by_script p UpvoteGeneralJs) \<and> yields_nothing (upvote_by_button p)
        \<and> yields_nothing (first_of (upvote_by_selector p) upvote_selectors)
      \<longrightarrow> extract_upvote_count p = Inr ''0'')
   \<and> (yields_nothing (comment_by_xpath p) \<and> yields_nothing (by_script p CommentSpecificJs)
        \<and> yields_nothing (comment_by_span p) \<and> yields_nothing (comment_by_button p)
        \<and> yields_nothing (by_script p CommentFinderJs)
        \<and> yields_nothing (first_of (comment_by_selector p) comment_selectors)
      \<longrightarrow> extract_comment_count p = Inr ''0'')
   \<and> (yields_nothing (first_of (share_by_selector p) share_selectors)
        \<and> yields_nothing (share_by_button p) \<and> yields_nothing (share_by_script p)
      \<longrightarrow> extract_share_count p = Inr ''0'')
   \<and> (yields_nothing (first_of (author_by_selector p) author_selectors)
        \<and> current_url p = Inr u \<and> \<not> contains ''/answer/'' u
      \<longrightarrow> extract_author_name p = Inr ''Name not found'')
   \<and> (yields_nothing (first_of (author_by_selector p) author_selectors)
        \<and> current_url p = Inl e
      \<longrightarrow> extract_author_name p = Inr ''Error extracting name'')"
  using extractors_total[of p] views_default[of p] upvotes_default[of p] comments_default[of p]
    shares_default[of p] author_default(1)[of p u] author_default(2)[of p e]
  by blast

lemmas strategy_defs = view_by_xpath_def view_by_selector_def view_by_script_def
  upvote_by_xpath_def by_script_def upvote_by_button_def upvote_by_selector_def
  comment_by_xpath_def comment_by_span_def comment_by_button_def comment_by_selector_def
  share_by_selector_def share_by_button_def share_by_script_def author_by_selector_def
  view_selectors_def upvote_selectors_def comment_selectors_def share_selectors_def
  author_selectors_def guarded_def

lemma bare_page_yields_nothing:
  "yields_nothing (view_by_xpath (bare_page u))"
  "yields_nothing (first_of (view_by_selector (bare_page u)) view_selectors)"
  "yields_nothing (view_by_script (bare_page u))"
  "yields_nothing (upvote_by_xpath (bare_page u))"
  "yields_nothing (by_script (bare_page u) js)"
  "yields_nothing (upvote_by_button (bare_page u))"
  "yields_nothing (first_of (upvote_by_selector (bare_page u)) upvote_selectors)"
  "yields_nothing (comment_by_xpath (bare_page u))"
  "yields_nothing (comment_by_span (bare_page u))"
  "yields_nothing (comment_by_button (bare_page u))"
  "yields_nothing (first_of (comment_by_selector (bare_page u)) comment_selectors)"
  "yields_nothing (first_of (share_by_selector (bare_page u)) share_selectors)"
  "yields_nothing (share_by_button (bare_page u))"
  "yields_nothing (share_by_script (bare_page u))"
  "yields_nothing (first_of (author_by_selector (bare_page u)) author_selectors)"
  by (simp_all add: yields_nothing_def strategy_defs bare_page_def res_eval)

lemma dead_page_yields_nothing:
  "yields_nothing (view_by_xpath dead_page)"
  "yields_nothing (first_of (view_by_selector dead_page) view_selectors)"
  "yields_nothing (view_by_script dead_page)"
  "yields_nothing (upvote_by_xpath dead_page)"
  "yields_nothing (by_script dead_page js)"
  "yields_nothing (upvote_by_button dead_page)"
  "yields_nothing (first_of (upvote_by_selector dead_page) upvote_selectors)"
  "yields_nothing (comment_by_xpath dead_page)"
  "yields_nothing (comment_by_span dead_page)"
  "yields_nothing (comment_by_button dead_page)"
  "yields_nothing (first_of (comment_by_selector dead_page) comment_selectors)"
  "yields_nothing (first_of (share_by_selector dead_page) share_selectors)"
  "yields_nothing (share_by_button dead_page)"
  "yields_nothing (share_by_script dead_page)"
  "yields_nothing (first_of (author_by_selector dead_page) author_selectors)"
  by (simp_all add: yields_nothing_def strategy_defs dead_page_def res_eval)

lemma no_answer_in_url: "\<not> contains ''/answer/'' ''https://www.quora.com/Q''"
  by code_simp

theorem extractors_return_defaults_witness:
  "extract_author_name (bare_page ''https://www.quora.com/Q'') = Inr ''Name not found''
   \<and> extract_view_count (bare_page ''https://www.quora.com/Q'') = Inr ''0''
   \<and> extract_upvote_count (bare_page ''https://www.quora.com/Q'') = Inr ''0''
   \<and> extract_comment_count (bare_page ''https://www.quora.com/Q'') = Inr ''0''
   \<and> extract_share_count (bare_page ''https://www.quora.com/Q'') = Inr ''0''
   \<and> extract_author_name dead_page = Inr ''Error extracting name''
   \<and> extract_view_count dead_page = Inr ''0''
   \<and> extract_upvote_count dead_page = Inr ''0''
   \<and> extract_comment_count dead_page = Inr ''0''
   \<and> extract_share_count dead_page = Inr ''0''"
proof -
  have u: "current_url (bare_page ''https://www.quora.com/Q'') = Inr ''https://www.quora.com/Q''"
    by (simp add: bare_page_def)
  have d: "current_url dead_page = Inl (WebDriverException ''invalid session id'')"
    by (simp add: dead_page_def)
  from extractors_return_defaults[of "bare_page ''https://www.quora.com/Q''"
      "''https://www.quora.com/Q''"] bare_page_yields_nothing u no_answer_in_url
  have b: "extract_author_name (bare_page ''https://www.quora.com/Q'') = Inr ''Name not found''
   \<and> extract_view_count (bare_page ''https://www.quora.com/Q'') = Inr ''0''
   \<and> extract_upvote_count (bare_page ''https://www.quora.com/Q'') = Inr ''0''
   \<and> extract_comment_count (bare_page ''https://www.quora.com/Q'') = Inr ''0''
   \<and> extract_share_count (bare_page ''https://www.quora.com/Q'') = Inr ''0''"
    by blast
  from extractors_return_defaults[of dead_page _ "WebDriverException ''invalid session id''"]
    dead_page_yields_nothing d
  have "extract_author_name dead_page = Inr ''Error extracting name''
   \<and> extract_view_count dead_page = Inr ''0''
   \<and> extract_upvote_count dead_page = Inr ''0''
   \<and> extract_comment_count dead_page = Inr ''0''
   \<and> extract_share_count dead_page = Inr ''0''"
    by blast
  with b show ?thesis by blast
qed

text \<open>
  C3 as stated fails: with the session lost, no step of the author extractor yields a
  value and the text returned is \<^verbatim>\<open>"Error extracting name"\<close>, not the default
  \<^verbatim>\<open>"Name not found"\<close>.
\<close>

theorem author_error_text_not_default:
  "yields_nothing (first_of (author_by_selector dead_page) author_selectors)
   \<and> current_url dead_page = Inl (WebDriverException ''invalid session id'')
   \<and> extract_author_name dead_page = Inr ''Error extracting name''
   \<and> extract_author_name dead_page \<noteq> Inr ''Name not found''"
  by (simp add: yields_nothing_def strategy_defs extract_author_name_def or_else_def
      author_from_url_def dead_page_def res_eval)

subsection \<open>The length of an accepted count\<close>

lemma long_comment_strategies:
  "comment_by_xpath long_comment_page = Inr None"
  "by_script long_comment_page CommentSpecificJs = Inr None"
  "comment_by_span long_comment_page = Inr None"
  "comment_by_button long_comment_page = Inr (Some ''12345678901'')"
  by (simp_all add: strategy_defs long_comment_page_def bare_page_def res_eval
      comment_span_xpath_def comment_button_xpath_def strip_def is_space_def isdigit_def
      is_digit_def)

lemma long_upvote_strategies:
  "upvote_by_xpath long_upvote_page = Inr None"
  "by_script long_upvote_page UpvoteSpecificJs = Inr None"
  "by_script long_upvote_page UpvoteGeneralJs = Inr None"
  "upvote_by_button long_upvote_page = Inr None"
  "first_of (upvote_by_selector long_upvote_page) upvote_selectors = Inr None"
  by (simp_all add: strategy_defs long_upvote_page_def bare_page_def res_eval
      upvote_button_xpath_def strip_def is_space_def is_digit_def)

text \<open>
  C8, on a page whose comment button shows \<^verbatim>\<open>12345678901\<close>: the comment extractor
  accepts and returns the eleven digits. The upvote extractor, which has the test
  \<^verbatim>\<open>len(digits) < 10\<close>, turns the same text of its button down.
\<close>

theorem comment_count_accepts_long_number:
  "extract_comment_count long_comment_page = Inr ''12345678901''
   \<and> isdigit ''12345678901'' \<and> \<not> length ''12345678901'' < 10
   \<and> extract_upvote_count long_upvote_page = Inr ''0''"
  by (simp add: extract_comment_count_def extract_upvote_count_def long_comment_strategies
      long_upvote_strategies or_else_def res_eval isdigit_def is_digit_def)

end
